theory Spec2Isabelle
  imports Complex_Main
begin

section \<open>PrairieView metadata reader: \<^verbatim>\<open>element_interface/prairieviewreader.py\<close>\<close>

text \<open>
  The module has one function, \<^verbatim>\<open>get_pv_metadata\<close>. It finds the XML file of a scan
  beside an image file, reads scalar fields out of the parsed tree with ElementTree
  path expressions, resolves the Z position of every depth, and returns a dictionary.
  The development follows the function from top to bottom; local variables keep
  their names.
\<close>

subsection \<open>ElementTree elements\<close>

text \<open>
  An \<^verbatim>\<open>xml.etree.ElementTree.Element\<close>: a tag, the attribute dictionary
  \<^verbatim>\<open>attrib\<close> and the child elements in document order. Text content is never
  read by the function and is left out.
\<close>

datatype element = Element (tag: string) (attrib: "(string \<times> string) list") (children: "element list")

text \<open>\<^verbatim>\<open>elem.attrib.get(key)\<close>: the attribute's text, or \<^verbatim>\<open>None\<close>.\<close>

definition attrib_get :: "element \<Rightarrow> string \<Rightarrow> string option" where
  "attrib_get e k = map_of (attrib e) k"

text \<open>\<^verbatim>\<open>elem.iter()\<close>: the element itself, then its descendants, in document order.\<close>

fun iter_elem :: "element \<Rightarrow> element list" where
  "iter_elem (Element t a cs) = Element t a cs # concat (map iter_elem cs)"

subsection \<open>Path expressions\<close>

text \<open>
  \<^verbatim>\<open>ElementPath.iterfind\<close> compiles a path into a list of selectors and runs them
  one after the other on the list \<^verbatim>\<open>[elem]\<close>. A path of the source is written
  here as the list of its selectors:
  \<^item> \<^verbatim>\<open>.\<close> is \<open>Self\<close> (\<^verbatim>\<open>prepare_self\<close>);
  \<^item> \<^verbatim>\<open>//tag\<close> is \<open>Descendant tag\<close> (\<^verbatim>\<open>prepare_descendant\<close>: every element of
    \<^verbatim>\<open>elem.iter(tag)\<close> but \<^verbatim>\<open>elem\<close> itself);
  \<^item> \<^verbatim>\<open>tag\<close> is \<open>Child tag\<close> (\<^verbatim>\<open>prepare_child\<close>);
  \<^item> \<^verbatim>\<open>*\<close> is \<open>Star\<close> (\<^verbatim>\<open>prepare_star\<close>); a path that ends in \<^verbatim>\<open>/\<close> gets a
    \<^verbatim>\<open>*\<close> appended by \<^verbatim>\<open>iterfind\<close>;
  \<^item> \<^verbatim>\<open>[@key]\<close> is \<open>HasAttr key\<close> and \<^verbatim>\<open>[@key='value']\<close> is \<open>AttrEq key value\<close>
    (\<^verbatim>\<open>prepare_predicate\<close>); the \<^verbatim>\<open>/\<close> the source writes before a predicate is
    skipped by the compiler.
\<close>

datatype selector =
    Self
  | Descendant string
  | Child string
  | Star
  | HasAttr string
  | AttrEq string string

fun select :: "selector \<Rightarrow> element list \<Rightarrow> element list" where
  "select Self result = result"
| "select (Descendant t) result =
     concat (map (\<lambda>elem. filter (\<lambda>e. tag e = t) (concat (map iter_elem (children elem)))) result)"
| "select (Child t) result =
     concat (map (\<lambda>elem. filter (\<lambda>e. tag e = t) (children elem)) result)"
| "select Star result = concat (map children result)"
| "select (HasAttr k) result = filter (\<lambda>elem. attrib_get elem k \<noteq> None) result"
| "select (AttrEq k v) result = filter (\<lambda>elem. attrib_get elem k = Some v) result"

definition run_path :: "selector list \<Rightarrow> element list \<Rightarrow> element list" where
  "run_path path result = fold select path result"

text \<open>\<^verbatim>\<open>root.findall(path)\<close> and \<^verbatim>\<open>root.iterfind(path)\<close>: all matches, in document order.\<close>

definition findall :: "element \<Rightarrow> selector list \<Rightarrow> element list" where
  "findall xml_root path = run_path path [xml_root]"

text \<open>\<^verbatim>\<open>root.find(path)\<close>: the first match, or \<^verbatim>\<open>None\<close>.\<close>

definition find_elem :: "element \<Rightarrow> selector list \<Rightarrow> element option" where
  "find_elem xml_root path = (case findall xml_root path of [] \<Rightarrow> None | e # _ \<Rightarrow> Some e)"

subsection \<open>Exceptions and the Python runtime\<close>

datatype pyerr =
    FileNotFoundError string
  | AttributeError
  | IndexError
  | TypeError
  | ValueError
  | ZeroDivisionError
  | OverflowError
  | AssertionError string
  | SyntaxError
  | KeyError
  | RuntimeError

text \<open>
  The exceptions of \<^verbatim>\<open>ElementPath\<close> when it is given a path text: its own
  \<^verbatim>\<open>raise\<close> statements give \<^verbatim>\<open>SyntaxError\<close> and \<^verbatim>\<open>RuntimeError\<close>, a token
  without an entry in its table \<^verbatim>\<open>ops\<close> gives \<^verbatim>\<open>KeyError\<close>, and a selector that
  was left unfinished gives \<^verbatim>\<open>TypeError\<close> when it is applied. The one list it
  indexes while selecting is indexed inside a \<^verbatim>\<open>try\<close> block that catches
  \<^verbatim>\<open>IndexError\<close>.
\<close>

datatype path_exception =
    PathSyntaxError
  | PathKeyError
  | PathTypeError
  | PathRuntimeError

fun raised :: "path_exception \<Rightarrow> pyerr" where
  "raised PathSyntaxError = SyntaxError"
| "raised PathKeyError = KeyError"
| "raised PathTypeError = TypeError"
| "raised PathRuntimeError = RuntimeError"

text \<open>Sequencing of steps that may raise: the first exception ends the call.\<close>

definition and_then :: "pyerr + 'a \<Rightarrow> ('a \<Rightarrow> pyerr + 'b) \<Rightarrow> pyerr + 'b" where
  "and_then m f = (case m of Inl e \<Rightarrow> Inl e | Inr x \<Rightarrow> f x)"

text \<open>
  What the function takes from the interpreter and from numpy is a parameter of the
  model: the conversions of text (\<^verbatim>\<open>int\<close>, \<^verbatim>\<open>float\<close>, \<^verbatim>\<open>numpy.float64\<close>,
  \<^verbatim>\<open>datetime.strptime\<close> with the format of the source) and binary64 arithmetic on
  the type \<open>'f\<close> of floats. A conversion gives \<open>None\<close> where Python raises
  \<^verbatim>\<open>ValueError\<close> (\<^verbatim>\<open>OverflowError\<close> for \<open>float_of_int\<close>). Float equality is
  \<open>f_eq\<close>, which need not be reflexive (\<^verbatim>\<open>nan != nan\<close>).

  The paths of the source are compiled by hand in this theory, but for the one that
  line 139 builds with \<^verbatim>\<open>format\<close>: when the text put into it has an apostrophe,
  what \<^verbatim>\<open>ElementPath\<close> makes of the whole path text depends on that text (most
  often \<^verbatim>\<open>SyntaxError\<close>, sometimes \<^verbatim>\<open>KeyError\<close>, sometimes another path), and
  \<open>findall_text t e\<close> stands for \<^verbatim>\<open>e.findall(t)\<close> there.
\<close>

record ('f, 't) runtime =
  int_of_str :: "string \<Rightarrow> int option"
  float_of_str :: "string \<Rightarrow> 'f option"
  float_of_int :: "int \<Rightarrow> 'f option"
  np_float64 :: "string option \<Rightarrow> 'f option"
  strptime :: "string \<Rightarrow> 't option"
  findall_text :: "string \<Rightarrow> element \<Rightarrow> path_exception + element list"
  f_div :: "'f \<Rightarrow> 'f \<Rightarrow> 'f"
  f_mul :: "'f \<Rightarrow> 'f \<Rightarrow> 'f"
  f_eq :: "'f \<Rightarrow> 'f \<Rightarrow> bool"
  f_zero :: "'f"
  f_one :: "'f"
  f_1e6 :: "'f"

text \<open>\<^verbatim>\<open>int(x)\<close> of an attribute: \<^verbatim>\<open>TypeError\<close> on \<^verbatim>\<open>None\<close>, \<^verbatim>\<open>ValueError\<close> on bad text.\<close>

definition py_int :: "('f, 't) runtime \<Rightarrow> string option \<Rightarrow> pyerr + int" where
  "py_int rt x =
     (case x of None \<Rightarrow> Inl TypeError
      | Some s \<Rightarrow> (case int_of_str rt s of None \<Rightarrow> Inl ValueError | Some n \<Rightarrow> Inr n))"

text \<open>\<^verbatim>\<open>float(x)\<close> of an attribute.\<close>

definition py_float :: "('f, 't) runtime \<Rightarrow> string option \<Rightarrow> pyerr + 'f" where
  "py_float rt x =
     (case x of None \<Rightarrow> Inl TypeError
      | Some s \<Rightarrow> (case float_of_str rt s of None \<Rightarrow> Inl ValueError | Some v \<Rightarrow> Inr v))"

text \<open>\<^verbatim>\<open>float(n)\<close> of an integer.\<close>

definition py_float_int :: "('f, 't) runtime \<Rightarrow> int \<Rightarrow> pyerr + 'f" where
  "py_float_int rt n = (case float_of_int rt n of None \<Rightarrow> Inl OverflowError | Some v \<Rightarrow> Inr v)"

text \<open>\<^verbatim>\<open>np.float64(x)\<close>; numpy decides what \<^verbatim>\<open>None\<close> becomes.\<close>

definition py_np_float64 :: "('f, 't) runtime \<Rightarrow> string option \<Rightarrow> pyerr + 'f" where
  "py_np_float64 rt x = (case np_float64 rt x of None \<Rightarrow> Inl ValueError | Some v \<Rightarrow> Inr v)"

text \<open>\<^verbatim>\<open>datetime.strptime(x, "%m/%d/%Y %I:%M:%S %p")\<close>.\<close>

definition py_strptime :: "('f, 't) runtime \<Rightarrow> string option \<Rightarrow> pyerr + 't" where
  "py_strptime rt x =
     (case x of None \<Rightarrow> Inl TypeError
      | Some s \<Rightarrow> (case strptime rt s of None \<Rightarrow> Inl ValueError | Some d \<Rightarrow> Inr d))"

text \<open>\<^verbatim>\<open>a / b\<close> on floats raises on a zero divisor.\<close>

definition py_truediv :: "('f, 't) runtime \<Rightarrow> 'f \<Rightarrow> 'f \<Rightarrow> pyerr + 'f" where
  "py_truediv rt a b = (if f_eq rt b (f_zero rt) then Inl ZeroDivisionError else Inr (f_div rt a b))"

text \<open>\<^verbatim>\<open>xs[i]\<close>: a negative index counts from the end; out of range raises.\<close>

definition py_getitem :: "'a list \<Rightarrow> int \<Rightarrow> pyerr + 'a" where
  "py_getitem xs i =
     (if 0 \<le> i \<and> i < int (length xs) then Inr (xs ! nat i)
      else if i < 0 \<and> - int (length xs) \<le> i then Inr (xs ! nat (int (length xs) + i))
      else Inl IndexError)"

text \<open>\<^verbatim>\<open>x.attrib\<close> where \<^verbatim>\<open>x\<close> is the result of \<^verbatim>\<open>find\<close>: \<^verbatim>\<open>None\<close> has no attributes.\<close>

definition py_attrib :: "element option \<Rightarrow> pyerr + element" where
  "py_attrib x = (case x of None \<Rightarrow> Inl AttributeError | Some e \<Rightarrow> Inr e)"

text \<open>A list comprehension whose body may raise: left to right, the first exception wins.\<close>

fun comprehension :: "('a \<Rightarrow> pyerr + 'b) \<Rightarrow> 'a list \<Rightarrow> pyerr + 'b list" where
  "comprehension f [] = Inr []"
| "comprehension f (x # xs) =
     and_then (f x) (\<lambda>y. and_then (comprehension f xs) (\<lambda>ys. Inr (y # ys)))"

text \<open>
  \<^verbatim>\<open>all(p(z) for z in zs)\<close>: the generator evaluates \<^verbatim>\<open>p\<close> on one item at a time
  and \<^verbatim>\<open>all\<close> stops at the first false one.
\<close>

fun py_all :: "('a \<Rightarrow> pyerr + bool) \<Rightarrow> 'a list \<Rightarrow> pyerr + bool" where
  "py_all p [] = Inr True"
| "py_all p (z # zs) = and_then (p z) (\<lambda>b. if b then py_all p zs else Inr False)"

text \<open>\<^verbatim>\<open>xs.index(True)\<close>: the position of the first \<^verbatim>\<open>True\<close>.\<close>

fun index_true :: "bool list \<Rightarrow> pyerr + nat" where
  "index_true [] = Inl ValueError"
| "index_true (b # bs) = (if b then Inr 0 else and_then (index_true bs) (\<lambda>i. Inr (Suc i)))"

text \<open>\<^verbatim>\<open>sum(bs)\<close> of a list of booleans: the number of \<^verbatim>\<open>True\<close> items.\<close>

definition py_sum :: "bool list \<Rightarrow> nat" where
  "py_sum bs = length (filter (\<lambda>b. b) bs)"

text \<open>\<^verbatim>\<open>assert cond, msg\<close>.\<close>

definition py_assert :: "bool \<Rightarrow> string \<Rightarrow> pyerr + unit" where
  "py_assert cond msg = (if cond then Inr () else Inl (AssertionError msg))"

text \<open>\<^verbatim>\<open>"{0}".format(x)\<close> of an attribute: \<^verbatim>\<open>None\<close> prints as \<^verbatim>\<open>None\<close>.\<close>

definition py_format :: "string option \<Rightarrow> string" where
  "py_format x = (case x of None \<Rightarrow> ''None'' | Some s \<Rightarrow> s)"

text \<open>
  The truth value of what \<^verbatim>\<open>find\<close> returns: \<^verbatim>\<open>None\<close> is false, and an
  \<^verbatim>\<open>Element\<close> is true when it has children (\<^verbatim>\<open>Element.__bool__\<close> is
  \<^verbatim>\<open>len(self) != 0\<close>).
\<close>

definition py_bool :: "element option \<Rightarrow> bool" where
  "py_bool x = (case x of None \<Rightarrow> False | Some e \<Rightarrow> children e \<noteq> [])"

subsection \<open>The paths of the source\<close>

text \<open>Line 37, \<^verbatim>\<open>.//Sequence\<close>.\<close>

definition path_sequence :: "selector list" where
  "path_sequence = [Self, Descendant ''Sequence'']"

text \<open>Line 47, \<^verbatim>\<open>.//Sequence/[@cycle='1']\<close>.\<close>

definition path_cycle1 :: "selector list" where
  "path_cycle1 = [Self, Descendant ''Sequence'', AttrEq ''cycle'' ''1'']"

text \<open>Line 52, \<^verbatim>\<open>.//Sequence/Frame/File/[@channel]\<close>.\<close>

definition path_channel :: "selector list" where
  "path_channel = [Self, Descendant ''Sequence'', Child ''Frame'', Child ''File'', HasAttr ''channel'']"

text \<open>Lines 55 and 72, \<^verbatim>\<open>.//Sequence/Frame\<close>.\<close>

definition path_frame :: "selector list" where
  "path_frame = [Self, Descendant ''Sequence'', Child ''Frame'']"

text \<open>Lines 57, 62 and 76, \<^verbatim>\<open>.//PVStateValue/[@key='...']\<close>.\<close>

definition path_state :: "string \<Rightarrow> selector list" where
  "path_state key = [Self, Descendant ''PVStateValue'', AttrEq ''key'' key]"

text \<open>Lines 83, 92 and 97, \<^verbatim>\<open>.//PVStateValue/[@key='...']/IndexedValue/[@index='...']\<close>.\<close>

definition path_indexed :: "string \<Rightarrow> string \<Rightarrow> selector list" where
  "path_indexed key axis =
     [Self, Descendant ''PVStateValue'', AttrEq ''key'' key, Child ''IndexedValue'', AttrEq ''index'' axis]"

text \<open>
  The steps from a \<^verbatim>\<open>Frame\<close> down to its Z-axis node,
  \<^verbatim>\<open>PVStateShard/PVStateValue/[@key='positionCurrent']/SubindexedValues/[@index='ZAxis']\<close>.
\<close>

definition steps_zaxis :: "selector list" where
  "steps_zaxis =
     [Child ''PVStateShard'', Child ''PVStateValue'', AttrEq ''key'' ''positionCurrent'',
      Child ''SubindexedValues'', AttrEq ''index'' ''ZAxis'']"

text \<open>Line 102, \<^verbatim>\<open>.//Sequence/[@cycle='1']/Frame/\<close> and the steps to the Z-axis node.\<close>

definition path_frame_zaxis :: "selector list" where
  "path_frame_zaxis = path_cycle1 @ [Child ''Frame''] @ steps_zaxis"

text \<open>
  Line 109,
  \<^verbatim>\<open>.//PVStateValue/[@key='positionCurrent']/SubindexedValues/[@index='ZAxis']/SubindexedValue\<close>.
\<close>

definition path_document_z :: "selector list" where
  "path_document_z =
     [Self, Descendant ''PVStateValue'', AttrEq ''key'' ''positionCurrent'',
      Child ''SubindexedValues'', AttrEq ''index'' ''ZAxis'', Child ''SubindexedValue'']"

text \<open>Line 123, \<^verbatim>\<open>.//Sequence/[@cycle='1']/Frame\<close>.\<close>

definition path_cycle1_frame :: "selector list" where
  "path_cycle1_frame = path_cycle1 @ [Child ''Frame'']"

text \<open>
  Lines 128 and 134 start with \<^verbatim>\<open>.//Sequence/[@cycle='1']/Frame/[@index='1']/\<close> and
  the steps to the Z-axis node; line 128 goes on with \<^verbatim>\<open>SubindexedValue\<close>, line 134
  ends in \<^verbatim>\<open>/\<close>, which selects every child.
\<close>

definition path_frame1_zaxis :: "selector list" where
  "path_frame1_zaxis = path_cycle1 @ [Child ''Frame'', AttrEq ''index'' ''1''] @ steps_zaxis"

definition path_z_controllers :: "selector list" where
  "path_z_controllers = path_frame1_zaxis @ [Child ''SubindexedValue'']"

definition path_controllers :: "selector list" where
  "path_controllers = path_frame1_zaxis @ [Star]"

text \<open>
  Line 157: the path of line 102 followed by \<^verbatim>\<open>SubindexedValue/[@subindex='0']\<close>.
  With \<open>s\<close> for \<^verbatim>\<open>0\<close> it is also what line 139 compiles to, as long as the text
  \<open>s\<close> has no apostrophe: the tokenizer then reads \<^verbatim>\<open>'s'\<close> as one quoted token
  and the predicate compares the attribute with \<open>s\<close>.
\<close>

definition path_subindex :: "string \<Rightarrow> selector list" where
  "path_subindex s = path_frame_zaxis @ [Child ''SubindexedValue'', AttrEq ''subindex'' s]"

text \<open>Line 139: the text of the path, after \<^verbatim>\<open>format\<close> has put \<open>s\<close> into it.\<close>

definition apostrophe :: char where
  "apostrophe = CHR 0x27"

definition quoted :: "string \<Rightarrow> string" where
  "quoted s = apostrophe # s @ [apostrophe]"

definition text_subindex :: "string \<Rightarrow> string" where
  "text_subindex s =
     ''.//Sequence/[@cycle='' @ quoted ''1''
     @ '']/Frame/PVStateShard/PVStateValue/[@key='' @ quoted ''positionCurrent''
     @ '']/SubindexedValues/[@index='' @ quoted ''ZAxis''
     @ '']/SubindexedValue/[@subindex='' @ quoted s @ '']''"

text \<open>
  \<^verbatim>\<open>root.findall\<close> of that text: the compiled path when \<open>s\<close> has no apostrophe,
  and otherwise what \<^verbatim>\<open>ElementPath\<close> does with the text.
\<close>

definition findall_subindex :: "('f, 't) runtime \<Rightarrow> element \<Rightarrow> string \<Rightarrow> pyerr + element list" where
  "findall_subindex rt xml_root s =
     (if apostrophe \<in> set s
      then (case findall_text rt (text_subindex s) xml_root of
              Inl x \<Rightarrow> Inl (raised x)
            | Inr matches \<Rightarrow> Inr matches)
      else Inr (findall xml_root (path_subindex s)))"

subsection \<open>The returned dictionary\<close>

text \<open>
  \<^verbatim>\<open>z_fields\<close> has a different Python type on each of the three paths through the
  function: a numpy scalar (line 107), a list of floats (line 151) or a list of
  what \<^verbatim>\<open>attrib.get\<close> returned (line 154).
\<close>

datatype 'f z_fields =
    Scalar 'f
  | Floats "'f list"
  | Texts "string option list"

text \<open>\<^verbatim>\<open>z_fields.size\<close> of a numpy scalar (line 113) and \<^verbatim>\<open>len(z_fields)\<close> of a list (line 162).\<close>

fun z_len :: "'f z_fields \<Rightarrow> nat" where
  "z_len (Scalar v) = 1"
| "z_len (Floats vs) = length vs"
| "z_len (Texts ts) = length ts"

record ('f, 't) metainfo =
  num_fields :: nat
  num_channels :: nat
  num_planes :: nat
  num_frames :: nat
  num_rois :: nat
  x_pos :: "unit option"
  y_pos :: "unit option"
  z_pos :: "unit option"
  frame_rate :: 'f
  bidirectional :: bool
  bidirectional_z :: bool
  scan_datetime :: 't
  usecs_per_line :: 'f
  scan_duration :: 'f
  height_in_pixels :: int
  width_in_pixels :: int
  height_in_um :: 'f
  width_in_um :: 'f
  fieldX :: 'f
  fieldY :: 'f
  fieldZ :: "'f z_fields"
  recording_time :: "string option"

subsection \<open>Lines 32 to 42: the XML file of the scan\<close>

text \<open>
  The file system is an input: \<open>path_parent p\<close> is the text of
  \<^verbatim>\<open>pathlib.Path(p).parent\<close> and \<open>glob_xml d\<close> is the list of the trees that
  \<^verbatim>\<open>ET.parse\<close> returns for the files \<^verbatim>\<open>d.glob("*.xml")\<close> yields, in the order
  in which it yields them. Every file is taken to be well-formed XML; a file that
  \<^verbatim>\<open>ET.parse\<close> rejects ends the call with the parser's exception and is not
  modelled.
\<close>

record filesystem =
  path_parent :: "string \<Rightarrow> string"
  glob_xml :: "string \<Rightarrow> element list"

text \<open>The \<^verbatim>\<open>for\<close> loop with its \<^verbatim>\<open>else\<close> branch.\<close>

fun locate_xml :: "string \<Rightarrow> element list \<Rightarrow> pyerr + element" where
  "locate_xml parent [] =
     Inl (FileNotFoundError (''No PrarieView metadata XML file found at '' @ parent))"
| "locate_xml parent (xml_root # xml_files) =
     (if py_bool (find_elem xml_root path_sequence) then Inr xml_root
      else locate_xml parent xml_files)"

subsection \<open>Lines 100 to 163: the Z position of every depth\<close>

text \<open>Line 147, the item of \<^verbatim>\<open>controller_assert\<close> for one controller.\<close>

definition controller_varies :: "('f, 't) runtime \<Rightarrow> 'f list \<Rightarrow> pyerr + bool" where
  "controller_varies rt z_controller =
     and_then
       (py_all (\<lambda>z. and_then (py_getitem z_controller 0) (\<lambda>z0. Inr (f_eq rt z z0))) z_controller)
       (\<lambda>b. Inr (\<not> b))"

text \<open>Lines 132 to 144, the list collected for one controller.\<close>

definition controller_values :: "('f, 't) runtime \<Rightarrow> element \<Rightarrow> element \<Rightarrow> pyerr + 'f list" where
  "controller_values rt xml_root controller =
     and_then (findall_subindex rt xml_root (py_format (attrib_get controller ''subindex'')))
       (comprehension (\<lambda>z. py_float rt (attrib_get z ''value'')))"

text \<open>Lines 132 to 151, taken when there is more than one controller.\<close>

definition several_controllers :: "('f, 't) runtime \<Rightarrow> element \<Rightarrow> pyerr + 'f z_fields" where
  "several_controllers rt xml_root =
     and_then (comprehension (controller_values rt xml_root) (findall xml_root path_controllers))
       (\<lambda>z_repeats.
     and_then (comprehension (controller_varies rt) z_repeats)
       (\<lambda>controller_assert.
     and_then (py_assert (py_sum controller_assert = 1)
                 ''Multiple controllers changing z depth is not supported'')
       (\<lambda>_.
     and_then (index_true controller_assert)
       (\<lambda>i.
     and_then (py_getitem z_repeats (int i))
       (\<lambda>z_fields. Inr (Floats z_fields))))))"

text \<open>Lines 154 to 159, taken otherwise.\<close>

definition one_controller :: "element \<Rightarrow> 'f z_fields" where
  "one_controller xml_root =
     Texts (map (\<lambda>z. attrib_get z ''value'') (findall xml_root (path_subindex ''0'')))"

text \<open>The result is \<^verbatim>\<open>(n_depths, z_fields, bidirection_z)\<close>.\<close>

definition resolve_z :: "('f, 't) runtime \<Rightarrow> element \<Rightarrow> pyerr + (nat \<times> 'f z_fields \<times> bool)" where
  "resolve_z rt xml_root =
     (if find_elem xml_root path_frame_zaxis = None then
        and_then (py_attrib (find_elem xml_root path_document_z))
          (\<lambda>e.
        and_then (py_np_float64 rt (attrib_get e ''value''))
          (\<lambda>v.
        let z_fields = Scalar v; n_depths = 1 in
        and_then (py_assert (z_len z_fields = n_depths) [])
          (\<lambda>_. Inr (n_depths, z_fields, False))))
      else
        and_then (py_attrib (find_elem xml_root path_sequence))
          (\<lambda>e.
        let bidirection_z = (attrib_get e ''bidirectionalZ'' = Some ''True'') in
        and_then (comprehension (\<lambda>plane. py_int rt (attrib_get plane ''index''))
                    (findall xml_root path_cycle1_frame))
          (\<lambda>planes.
        let n_depths = card (set planes);
            z_controllers = findall xml_root path_z_controllers in
        and_then (if length z_controllers > 1 then several_controllers rt xml_root
                  else Inr (one_controller xml_root))
          (\<lambda>z_fields.
        and_then (py_assert (z_len z_fields = n_depths)
                    ''Number of z fields does not match number of depths.'')
          (\<lambda>_. Inr (n_depths, z_fields, bidirection_z))))))"

subsection \<open>Lines 44 to 190: the fields of the dictionary\<close>

text \<open>\<^verbatim>\<open>root.findall(path)[0].attrib.get("value")\<close>, lines 57, 62 and 76.\<close>

definition first_value :: "element \<Rightarrow> selector list \<Rightarrow> pyerr + string option" where
  "first_value xml_root path =
     and_then (py_getitem (findall xml_root path) 0) (\<lambda>e. Inr (attrib_get e ''value''))"

text \<open>\<^verbatim>\<open>root.find(path).attrib.get("value")\<close>, lines 82, 91 and 96.\<close>

definition find_value :: "element \<Rightarrow> selector list \<Rightarrow> pyerr + string option" where
  "find_value xml_root path =
     and_then (py_attrib (find_elem xml_root path)) (\<lambda>e. Inr (attrib_get e ''value''))"

definition extract_metainfo :: "('f, 't) runtime \<Rightarrow> element \<Rightarrow> pyerr + ('f, 't) metainfo" where
  "extract_metainfo rt xml_root =
     (let bidirectional_scan = False; roi = 0; n_fields = 1 in
      and_then (py_attrib (find_elem xml_root path_cycle1))
        (\<lambda>e.
      let record_start_time = attrib_get e ''time'' in
      and_then (comprehension (\<lambda>channel. py_int rt (attrib_get channel ''channel''))
                  (findall xml_root path_channel))
        (\<lambda>channel_list.
      let n_channels = card (set channel_list);
          n_frames = length (findall xml_root path_frame) in
      and_then (first_value xml_root (path_state ''framePeriod''))
        (\<lambda>v.
      and_then (py_float rt v)
        (\<lambda>frame_period.
      and_then (py_truediv rt (f_one rt) frame_period)
        (\<lambda>framerate.
      and_then (first_value xml_root (path_state ''scanLinePeriod''))
        (\<lambda>v.
      and_then (py_float rt v)
        (\<lambda>scan_line_period.
      let usec_per_line = f_mul rt scan_line_period (f_1e6 rt) in
      and_then (py_strptime rt (attrib_get xml_root ''date''))
        (\<lambda>scan_datetime.
      and_then (py_getitem (findall xml_root path_frame) (- 1))
        (\<lambda>e.
      and_then (py_float rt (attrib_get e ''relativeTime''))
        (\<lambda>total_duration.
      and_then (first_value xml_root (path_state ''pixelsPerLine''))
        (\<lambda>v.
      and_then (py_int rt v)
        (\<lambda>px_height.
      let px_width = px_height in
      and_then (find_value xml_root (path_indexed ''micronsPerPixel'' ''XAxis''))
        (\<lambda>v.
      and_then (py_float rt v)
        (\<lambda>um_per_pixel.
      and_then (py_float_int rt px_height)
        (\<lambda>px_height_f.
      let um_width = f_mul rt px_height_f um_per_pixel; um_height = um_width in
      and_then (find_value xml_root (path_indexed ''currentScanCenter'' ''XAxis''))
        (\<lambda>v.
      and_then (py_float rt v)
        (\<lambda>x_field.
      and_then (find_value xml_root (path_indexed ''currentScanCenter'' ''YAxis''))
        (\<lambda>v.
      and_then (py_float rt v)
        (\<lambda>y_field.
      and_then (resolve_z rt xml_root)
        (\<lambda>(n_depths, z_fields, bidirection_z).
      Inr \<lparr> num_fields = n_fields,
            num_channels = n_channels,
            num_planes = n_depths,
            num_frames = n_frames,
            num_rois = roi,
            x_pos = None,
            y_pos = None,
            z_pos = None,
            frame_rate = framerate,
            bidirectional = bidirectional_scan,
            bidirectional_z = bidirection_z,
            scan_datetime = scan_datetime,
            usecs_per_line = usec_per_line,
            scan_duration = total_duration,
            height_in_pixels = px_height,
            width_in_pixels = px_width,
            height_in_um = um_height,
            width_in_um = um_width,
            fieldX = x_field,
            fieldY = y_field,
            fieldZ = z_fields,
            recording_time = record_start_time \<rparr>)))))))))))))))))))))"

subsection \<open>The function\<close>

text \<open>What lines 32 to 42 leave in \<^verbatim>\<open>root\<close>.\<close>

definition scan_document :: "filesystem \<Rightarrow> string \<Rightarrow> pyerr + element" where
  "scan_document fs pvtiffile =
     (let parent = path_parent fs pvtiffile in locate_xml parent (glob_xml fs parent))"

definition get_pv_metadata ::
  "('f, 't) runtime \<Rightarrow> filesystem \<Rightarrow> string \<Rightarrow> pyerr + ('f, 't) metainfo" where
  "get_pv_metadata rt fs pvtiffile =
     and_then (scan_document fs pvtiffile) (extract_metainfo rt)"

section \<open>The words of the specification\<close>

text \<open>
  The Z entries of one frame for one controller: the \<^verbatim>\<open>SubindexedValue\<close> children
  with the given \<^verbatim>\<open>subindex\<close> of the Z-axis node in the state block of the frame.
\<close>

definition frame_z_entries :: "string \<Rightarrow> element \<Rightarrow> element list" where
  "frame_z_entries s f =
     run_path (steps_zaxis @ [Child ''SubindexedValue'', AttrEq ''subindex'' s]) [f]"

text \<open>A controller varies when not all values of its sequence are equal.\<close>

definition varies :: "('f, 't) runtime \<Rightarrow> 'f list \<Rightarrow> bool" where
  "varies rt zs = (\<not> list_all (\<lambda>a. list_all (\<lambda>b. f_eq rt a b) zs) zs)"

section \<open>Fixtures\<close>

subsection \<open>A runtime with exact arithmetic\<close>

text \<open>
  For evaluating the function on concrete documents: plain decimal literals
  (an optional minus sign, digits, an optional fraction) are read exactly, any other
  text is rejected, and arithmetic is that of the reals. A date is kept as its text.
  A path text is refused; no fixture has an apostrophe in a \<^verbatim>\<open>subindex\<close>.
\<close>

definition digit_of :: "char \<Rightarrow> nat option" where
  "digit_of c =
     map_of [(CHR ''0'', 0), (CHR ''1'', 1), (CHR ''2'', 2), (CHR ''3'', 3), (CHR ''4'', 4),
             (CHR ''5'', 5), (CHR ''6'', 6), (CHR ''7'', 7), (CHR ''8'', 8), (CHR ''9'', 9)] c"

fun digits_value :: "nat \<Rightarrow> string \<Rightarrow> nat option" where
  "digits_value acc [] = Some acc"
| "digits_value acc (c # cs) =
     (case digit_of c of None \<Rightarrow> None | Some d \<Rightarrow> digits_value (10 * acc + d) cs)"

definition decimal_nat :: "string \<Rightarrow> nat option" where
  "decimal_nat s = (if s = [] then None else digits_value 0 s)"

definition decimal_unsigned :: "string \<Rightarrow> real option" where
  "decimal_unsigned s =
     (let whole = takeWhile (\<lambda>c. c \<noteq> CHR ''.'') s;
          rest = dropWhile (\<lambda>c. c \<noteq> CHR ''.'') s
      in case rest of
           [] \<Rightarrow> map_option real (decimal_nat whole)
         | _ # fraction \<Rightarrow>
             (case (decimal_nat whole, decimal_nat fraction) of
                (Some a, Some b) \<Rightarrow> Some (real a + real b / 10 ^ length fraction)
              | _ \<Rightarrow> None))"

definition decimal_real :: "string \<Rightarrow> real option" where
  "decimal_real s =
     (case s of
        [] \<Rightarrow> None
      | c # cs \<Rightarrow> if c = CHR ''-'' then map_option uminus (decimal_unsigned cs)
                 else decimal_unsigned s)"

definition decimal_int :: "string \<Rightarrow> int option" where
  "decimal_int s =
     (case s of
        [] \<Rightarrow> None
      | c # cs \<Rightarrow> if c = CHR ''-'' then map_option (\<lambda>n. - int n) (decimal_nat cs)
                 else map_option int (decimal_nat s))"

definition exact_runtime :: "(real, string) runtime" where
  "exact_runtime =
     \<lparr> int_of_str = decimal_int,
       float_of_str = decimal_real,
       float_of_int = (\<lambda>n. Some (real_of_int n)),
       np_float64 = (\<lambda>x. case x of None \<Rightarrow> None | Some s \<Rightarrow> decimal_real s),
       strptime = (\<lambda>s. if s = [] then None else Some s),
       findall_text = (\<lambda>t e. Inl PathSyntaxError),
       f_div = (\<lambda>a b. a / b),
       f_mul = (\<lambda>a b. a * b),
       f_eq = (\<lambda>a b. a = b),
       f_zero = 0,
       f_one = 1,
       f_1e6 = 1000000 \<rparr>"

subsection \<open>A directory\<close>

text \<open>The parent of a path is what stands before its last slash.\<close>

definition posix_parent :: "string \<Rightarrow> string" where
  "posix_parent p = rev (tl (dropWhile (\<lambda>c. c \<noteq> CHR ''/'') (rev p)))"

text \<open>A file system with XML files in one directory only.\<close>

definition one_directory :: "string \<Rightarrow> element list \<Rightarrow> filesystem" where
  "one_directory d xml_files =
     \<lparr> path_parent = posix_parent, glob_xml = (\<lambda>x. if x = d then xml_files else []) \<rparr>"

subsection \<open>Documents\<close>

text \<open>\<^verbatim>\<open><PVStateValue key="k" value="v"/>\<close>\<close>

definition state_value :: "string \<Rightarrow> string \<Rightarrow> element" where
  "state_value k v = Element ''PVStateValue'' [(''key'', k), (''value'', v)] []"

text \<open>\<^verbatim>\<open><PVStateValue key="k"><IndexedValue index="XAxis" value="x"/>...\<close>\<close>

definition indexed_value :: "string \<Rightarrow> string \<Rightarrow> string \<Rightarrow> element" where
  "indexed_value k x y =
     Element ''PVStateValue'' [(''key'', k)]
       [Element ''IndexedValue'' [(''index'', ''XAxis''), (''value'', x)] [],
        Element ''IndexedValue'' [(''index'', ''YAxis''), (''value'', y)] []]"

text \<open>A \<^verbatim>\<open>SubindexedValue\<close> with a subindex and a value.\<close>

definition subindexed :: "string \<Rightarrow> string \<Rightarrow> element" where
  "subindexed s v = Element ''SubindexedValue'' [(''subindex'', s), (''value'', v)] []"

text \<open>The \<^verbatim>\<open>positionCurrent\<close> entry with the given children of its Z-axis node.\<close>

definition position_current :: "element list \<Rightarrow> element" where
  "position_current controllers =
     Element ''PVStateValue'' [(''key'', ''positionCurrent'')]
       [Element ''SubindexedValues'' [(''index'', ''XAxis'')] [subindexed ''0'' ''-7.5''],
        Element ''SubindexedValues'' [(''index'', ''ZAxis'')] controllers]"

text \<open>A frame: its index, its relative time, the channel of its file, its state block.\<close>

definition frame :: "string \<Rightarrow> string \<Rightarrow> string \<Rightarrow> element list \<Rightarrow> element" where
  "frame i t c shard =
     Element ''Frame'' [(''relativeTime'', t), (''index'', i)]
       [Element ''File'' [(''channel'', c), (''filename'', ''scan.ome.tif'')] [],
        Element ''PVStateShard'' [] shard]"

definition sequence :: "string \<Rightarrow> string \<Rightarrow> element list \<Rightarrow> element" where
  "sequence c b frames =
     Element ''Sequence'' [(''type'', ''TSeries''), (''cycle'', c), (''time'', ''15:04:05.12''),
                           (''bidirectionalZ'', b)] frames"

text \<open>The values every fixture has in the state block of the document.\<close>

definition scan_state :: "string \<Rightarrow> element list" where
  "scan_state frame_period =
     [state_value ''framePeriod'' frame_period,
      state_value ''scanLinePeriod'' ''0.000063'',
      state_value ''pixelsPerLine'' ''512'',
      indexed_value ''micronsPerPixel'' ''1.2'' ''1.3'',
      indexed_value ''currentScanCenter'' ''0.5'' ''-0.25'']"

definition pvscan :: "element list \<Rightarrow> element list \<Rightarrow> element" where
  "pvscan state sequences =
     Element ''PVScan'' [(''date'', ''10/21/2021 3:04:05 PM'')]
       (Element ''PVStateShard'' [] state # sequences)"

text \<open>
  One plane: no frame has a Z-axis entry of its own. The files of the six frames
  alternate between channel 1 and channel 2.
\<close>

definition single_plane_doc :: element where
  "single_plane_doc =
     pvscan (scan_state ''0.02'' @ [position_current [subindexed ''0'' ''63.5'']])
       [sequence ''1'' ''False''
          [frame ''1'' ''0'' ''1'' [], frame ''2'' ''0.02'' ''2'' [],
           frame ''3'' ''0.04'' ''1'' [], frame ''4'' ''0.06'' ''2'' [],
           frame ''5'' ''0.08'' ''1'' [], frame ''6'' ''0.1'' ''2'' []]]"

text \<open>Three planes, one Z controller; \<open>last_shard\<close> is the state block of the third frame.\<close>

definition one_controller_doc :: "element list \<Rightarrow> element" where
  "one_controller_doc last_shard =
     pvscan (scan_state ''0.02'' @ [position_current [subindexed ''0'' ''10'']])
       [sequence ''1'' ''True''
          [frame ''1'' ''0'' ''1'' [position_current [subindexed ''0'' ''10'']],
           frame ''2'' ''0.02'' ''1'' [position_current [subindexed ''0'' ''20'']],
           frame ''3'' ''0.04'' ''1'' last_shard]]"

text \<open>
  Three planes, two Z controllers; \<open>a\<close> are the values of controller 0 and \<open>b\<close>
  those of controller 1 in the three frames, \<open>extra\<close> are further children of the
  Z-axis node of the first frame.
\<close>

definition two_controller_doc :: "string list \<Rightarrow> string list \<Rightarrow> element list \<Rightarrow> element" where
  "two_controller_doc a b extra =
     pvscan (scan_state ''0.02'')
       [sequence ''1'' ''False''
          [frame ''1'' ''0'' ''1''
             [position_current ([subindexed ''0'' (a ! 0), subindexed ''1'' (b ! 0)] @ extra)],
           frame ''2'' ''0.02'' ''1''
             [position_current [subindexed ''0'' (a ! 1), subindexed ''1'' (b ! 1)]],
           frame ''3'' ''0.04'' ''1''
             [position_current [subindexed ''0'' (a ! 2), subindexed ''1'' (b ! 2)]]]]"

text \<open>A second \<^verbatim>\<open>framePeriod\<close> entry, in the state block of the first frame.\<close>

definition two_frame_period_doc :: element where
  "two_frame_period_doc =
     pvscan (scan_state ''0.02'' @ [position_current [subindexed ''0'' ''63.5'']])
       [sequence ''1'' ''False''
          [frame ''1'' ''0'' ''1'' [state_value ''framePeriod'' ''0.04''],
           frame ''2'' ''0.02'' ''1'' []]]"

text \<open>An XML file of another kind: no \<^verbatim>\<open>Sequence\<close> in it.\<close>

definition settings_doc :: element where
  "settings_doc = Element ''Environment'' [] [Element ''PVStateShard'' [] (scan_state ''0.02'')]"

text \<open>
  The third controller child of the first frame has no \<^verbatim>\<open>subindex\<close>; no entry of
  any frame matches the path made from it.
\<close>

definition unmatched_controller_doc :: element where
  "unmatched_controller_doc =
     two_controller_doc [''100'', ''100'', ''100''] [''1'', ''2'', ''3'']
       [Element ''SubindexedValue'' [(''value'', ''7'')] []]"

text \<open>No \<^verbatim>\<open>framePeriod\<close> entry anywhere.\<close>

definition no_frame_period_doc :: element where
  "no_frame_period_doc =
     pvscan (tl (scan_state ''0.02'') @ [position_current [subindexed ''0'' ''63.5'']])
       [sequence ''1'' ''False'' [frame ''1'' ''0'' ''1'' [], frame ''2'' ''0.02'' ''1'' []]]"

text \<open>Every one of the three frames has its Z entry.\<close>

definition three_plane_doc :: element where
  "three_plane_doc = one_controller_doc [position_current [subindexed ''0'' ''30'']]"

text \<open>The third frame has none.\<close>

definition short_doc :: element where
  "short_doc = one_controller_doc []"

text \<open>Controller 0 rests and controller 1 moves; both move; both rest.\<close>

definition one_moves_doc :: element where
  "one_moves_doc = two_controller_doc [''100'', ''100'', ''100''] [''1'', ''2'', ''3''] []"

definition both_move_doc :: element where
  "both_move_doc = two_controller_doc [''100'', ''101'', ''100''] [''1'', ''2'', ''3''] []"

definition both_rest_doc :: element where
  "both_rest_doc = two_controller_doc [''100'', ''100'', ''100''] [''1'', ''1'', ''1''] []"

text \<open>
  Four planes and three controller entries at the first frame, two of them with
  subindex 1; the fourth frame has no entry with subindex 1.
\<close>

definition repeated_subindex_doc :: element where
  "repeated_subindex_doc =
     pvscan (scan_state ''0.02'')
       [sequence ''1'' ''False''
          [frame ''1'' ''0'' ''1''
             [position_current
                [subindexed ''0'' ''100'', subindexed ''1'' ''1'', subindexed ''1'' ''2'']],
           frame ''2'' ''0.02'' ''1''
             [position_current [subindexed ''0'' ''100'', subindexed ''1'' ''3'']],
           frame ''3'' ''0.04'' ''1''
             [position_current [subindexed ''0'' ''100'', subindexed ''1'' ''4'']],
           frame ''4'' ''0.06'' ''1''
             [position_current [subindexed ''0'' ''100'']]]]"

text \<open>
  Three planes, one Z controller: one entry in the first frame, two in the second,
  none in the third.
\<close>

definition uneven_doc :: element where
  "uneven_doc =
     pvscan (scan_state ''0.02'' @ [position_current [subindexed ''0'' ''10'']])
       [sequence ''1'' ''True''
          [frame ''1'' ''0'' ''1'' [position_current [subindexed ''0'' ''10'']],
           frame ''2'' ''0.02'' ''1''
             [position_current [subindexed ''0'' ''20'', subindexed ''0'' ''21'']],
           frame ''3'' ''0.04'' ''1'' []]]"


text \<open>
  The first \<^verbatim>\<open>Sequence\<close> of the document has no children; the second is a complete
  single-plane scan.
\<close>

definition empty_first_sequence_doc :: element where
  "empty_first_sequence_doc =
     pvscan (scan_state ''0.02'' @ [position_current [subindexed ''0'' ''63.5'']])
       [Element ''Sequence'' [(''type'', ''TSeries''), (''cycle'', ''0'')] [],
        sequence ''1'' ''False'' [frame ''1'' ''0'' ''1'' [], frame ''2'' ''0.02'' ''1'' []]]"


subsection \<open>Calls\<close>

text \<open>The image file of every fixture call, and its directory.\<close>

definition tif :: string where
  "tif = ''/data/scan/scan_Cycle00001_Ch1_000001.ome.tif''"

definition scan_dir :: "element list \<Rightarrow> filesystem" where
  "scan_dir xml_files = one_directory ''/data/scan'' xml_files"

text \<open>
  The dictionary the fixtures give, up to the fields in which they differ.
\<close>

definition expected :: "nat \<Rightarrow> nat \<Rightarrow> nat \<Rightarrow> bool \<Rightarrow> real \<Rightarrow> real z_fields \<Rightarrow> (real, string) metainfo" where
  "expected n_channels n_depths n_frames bidirection_z total_duration z_fields =
     \<lparr> num_fields = 1,
       num_channels = n_channels,
       num_planes = n_depths,
       num_frames = n_frames,
       num_rois = 0,
       x_pos = None,
       y_pos = None,
       z_pos = None,
       frame_rate = 50,
       bidirectional = False,
       bidirectional_z = bidirection_z,
       scan_datetime = ''10/21/2021 3:04:05 PM'',
       usecs_per_line = 63,
       scan_duration = total_duration,
       height_in_pixels = 512,
       width_in_pixels = 512,
       height_in_um = 3072 / 5,
       width_in_um = 3072 / 5,
       fieldX = 1 / 2,
       fieldY = - (1 / 4),
       fieldZ = z_fields,
       recording_time = Some ''15:04:05.12'' \<rparr>"

section \<open>Properties\<close>

subsection \<open>Sequencing\<close>

lemma and_then_Inr_iff: "and_then m f = Inr y \<longleftrightarrow> (\<exists>x. m = Inr x \<and> f x = Inr y)"
  by (cases m) (simp_all add: and_then_def)

lemma and_then_Inr [simp]: "and_then (Inr x) f = f x"
  by (simp add: and_then_def)

lemma and_then_Inl [simp]: "and_then (Inl e) f = Inl e"
  by (simp add: and_then_def)

text \<open>A call that returns a dictionary has passed every step; these are the values it read.\<close>

lemma extract_metainfo_Inr:
  assumes "extract_metainfo rt xml_root = Inr r"
  obtains e channel_list v1 frame_period framerate v2 scan_line_period scan_datetime e2
    total_duration v3 px_height v4 um_per_pixel px_height_f v5 x_field v6 y_field
    n_depths z_fields bidirection_z
  where "py_attrib (find_elem xml_root path_cycle1) = Inr e"
    and "comprehension (\<lambda>channel. py_int rt (attrib_get channel ''channel''))
           (findall xml_root path_channel) = Inr channel_list"
    and "first_value xml_root (path_state ''framePeriod'') = Inr v1"
    and "py_float rt v1 = Inr frame_period"
    and "py_truediv rt (f_one rt) frame_period = Inr framerate"
    and "first_value xml_root (path_state ''scanLinePeriod'') = Inr v2"
    and "py_float rt v2 = Inr scan_line_period"
    and "py_strptime rt (attrib_get xml_root ''date'') = Inr scan_datetime"
    and "py_getitem (findall xml_root path_frame) (- 1) = Inr e2"
    and "py_float rt (attrib_get e2 ''relativeTime'') = Inr total_duration"
    and "first_value xml_root (path_state ''pixelsPerLine'') = Inr v3"
    and "py_int rt v3 = Inr px_height"
    and "find_value xml_root (path_indexed ''micronsPerPixel'' ''XAxis'') = Inr v4"
    and "py_float rt v4 = Inr um_per_pixel"
    and "py_float_int rt px_height = Inr px_height_f"
    and "find_value xml_root (path_indexed ''currentScanCenter'' ''XAxis'') = Inr v5"
    and "py_float rt v5 = Inr x_field"
    and "find_value xml_root (path_indexed ''currentScanCenter'' ''YAxis'') = Inr v6"
    and "py_float rt v6 = Inr y_field"
    and "resolve_z rt xml_root = Inr (n_depths, z_fields, bidirection_z)"
    and "r = \<lparr> num_fields = 1,
                num_channels = card (set channel_list),
                num_planes = n_depths,
                num_frames = length (findall xml_root path_frame),
                num_rois = 0,
                x_pos = None,
                y_pos = None,
                z_pos = None,
                frame_rate = framerate,
                bidirectional = False,
                bidirectional_z = bidirection_z,
                scan_datetime = scan_datetime,
                usecs_per_line = f_mul rt scan_line_period (f_1e6 rt),
                scan_duration = total_duration,
                height_in_pixels = px_height,
                width_in_pixels = px_height,
                height_in_um = f_mul rt px_height_f um_per_pixel,
                width_in_um = f_mul rt px_height_f um_per_pixel,
                fieldX = x_field,
                fieldY = y_field,
                fieldZ = z_fields,
                recording_time = attrib_get e ''time'' \<rparr>"
  using assms unfolding extract_metainfo_def Let_def and_then_Inr_iff
  by (auto split: prod.splits)

lemma get_pv_metadata_Inr:
  assumes "get_pv_metadata rt fs pvtiffile = Inr r"
  obtains xml_root where "scan_document fs pvtiffile = Inr xml_root"
    and "extract_metainfo rt xml_root = Inr r"
  using assms by (auto simp: get_pv_metadata_def and_then_Inr_iff)

subsection \<open>The fixtures, evaluated\<close>

lemma single_plane_document:
  "scan_document (scan_dir [settings_doc, single_plane_doc]) tif = Inr single_plane_doc"
  by code_simp

lemma single_plane_call:
  "get_pv_metadata exact_runtime (scan_dir [settings_doc, single_plane_doc]) tif
     = Inr (expected 2 1 6 False (1 / 10) (Scalar (127 / 2)))"
  by code_simp

subsection \<open>Square frames and constants\<close>







subsection \<open>Conversions, comprehensions and paths\<close>

lemma py_int_Inr_iff:
  "py_int rt x = Inr n \<longleftrightarrow> (\<exists>s. x = Some s \<and> int_of_str rt s = Some n)"
  by (auto simp: py_int_def split: option.splits)

lemma py_float_Inr_iff:
  "py_float rt x = Inr v \<longleftrightarrow> (\<exists>s. x = Some s \<and> float_of_str rt s = Some v)"
  by (auto simp: py_float_def split: option.splits)

lemma py_truediv_Inr_iff:
  "py_truediv rt a b = Inr c \<longleftrightarrow> \<not> f_eq rt b (f_zero rt) \<and> c = f_div rt a b"
  by (auto simp: py_truediv_def)

lemma comprehension_Inr_iff:
  "comprehension f xs = Inr ys \<longleftrightarrow> list_all2 (\<lambda>x y. f x = Inr y) xs ys"
proof (induction xs arbitrary: ys)
  case Nil
  show ?case by auto
next
  case (Cons x xs)
  show ?case
    by (cases ys) (auto simp: and_then_Inr_iff Cons.IH)
qed

lemma select_Nil [simp]: "select s [] = []"
  by (cases s) simp_all

lemma select_append: "select s (xs @ ys) = select s xs @ select s ys"
  by (cases s) simp_all

lemma run_path_Nil [simp]: "run_path path [] = []"
  by (induction path) (simp_all add: run_path_def)

lemma run_path_append: "run_path (p @ q) xs = run_path q (run_path p xs)"
  by (simp add: run_path_def)

lemma run_path_list_append: "run_path path (xs @ ys) = run_path path xs @ run_path path ys"
  by (induction path arbitrary: xs ys) (simp_all add: run_path_def select_append)

lemma run_path_concat: "run_path path xs = concat (map (\<lambda>x. run_path path [x]) xs)"
proof (induction xs)
  case Nil
  show ?case by simp
next
  case (Cons x xs)
  have "run_path path (x # xs) = run_path path [x] @ run_path path xs"
    using run_path_list_append [of path "[x]" xs] by simp
  with Cons show ?case by simp
qed

lemma findall_append: "findall xml_root (p @ q) = run_path q (findall xml_root p)"
  by (simp add: findall_def run_path_append)

lemma find_elem_None_iff: "find_elem xml_root path = None \<longleftrightarrow> findall xml_root path = []"
  by (simp add: find_elem_def split: list.splits)

lemma find_elem_Some_iff:
  "find_elem xml_root path = Some e \<longleftrightarrow> (\<exists>es. findall xml_root path = e # es)"
  by (simp add: find_elem_def split: list.splits)

subsection \<open>Frame rate and line period\<close>

lemma first_value_frame_period:
  "first_value single_plane_doc (path_state ''framePeriod'') = Inr (Some ''0.02'')"
  by code_simp

lemma first_value_scan_line_period:
  "first_value single_plane_doc (path_state ''scanLinePeriod'') = Inr (Some ''0.000063'')"
  by code_simp

lemma float_of_frame_period: "py_float exact_runtime (Some ''0.02'') = Inr (2 / 100)"
  by code_simp

lemma float_of_scan_line_period: "py_float exact_runtime (Some ''0.000063'') = Inr (63 / 1000000)"
  by code_simp

text \<open>
  Claim C7. A call that returns a dictionary has read a \<^verbatim>\<open>framePeriod\<close> that is
  not zero; \<^verbatim>\<open>frame_rate\<close> is 1 divided by it, and \<^verbatim>\<open>usecs_per_line\<close> is the
  \<^verbatim>\<open>scanLinePeriod\<close> times \<^verbatim>\<open>1e6\<close>. Both values are those of the first matching
  entry of the document. With exact arithmetic a \<^verbatim>\<open>framePeriod\<close> of 0.02 gives the
  frame rate 50.
\<close>

theorem frame_rate_is_reciprocal:
  assumes "get_pv_metadata rt fs pvtiffile = Inr r"
  shows "\<exists>xml_root v1 frame_period v2 scan_line_period.
           scan_document fs pvtiffile = Inr xml_root
         \<and> first_value xml_root (path_state ''framePeriod'') = Inr v1
         \<and> py_float rt v1 = Inr frame_period
         \<and> \<not> f_eq rt frame_period (f_zero rt)
         \<and> frame_rate r = f_div rt (f_one rt) frame_period
         \<and> first_value xml_root (path_state ''scanLinePeriod'') = Inr v2
         \<and> py_float rt v2 = Inr scan_line_period
         \<and> usecs_per_line r = f_mul rt scan_line_period (f_1e6 rt)"
proof -
  from assms obtain xml_root where doc: "scan_document fs pvtiffile = Inr xml_root"
    and ex: "extract_metainfo rt xml_root = Inr r"
    by (rule get_pv_metadata_Inr)
  from ex show ?thesis
    by (rule extract_metainfo_Inr) (auto simp: doc py_truediv_Inr_iff)
qed

theorem frame_rate_is_reciprocal_witness:
  "get_pv_metadata exact_runtime (scan_dir [settings_doc, single_plane_doc]) tif
     = Inr (expected 2 1 6 False (1 / 10) (Scalar (127 / 2)))
   \<and> first_value single_plane_doc (path_state ''framePeriod'') = Inr (Some ''0.02'')
   \<and> py_float exact_runtime (Some ''0.02'') = Inr (2 / 100)
   \<and> frame_rate (expected 2 1 6 False (1 / 10) (Scalar (127 / 2))) = 1 / (2 / 100)
   \<and> frame_rate (expected 2 1 6 False (1 / 10) (Scalar (127 / 2))) = 50
   \<and> first_value single_plane_doc (path_state ''scanLinePeriod'') = Inr (Some ''0.000063'')
   \<and> py_float exact_runtime (Some ''0.000063'') = Inr (63 / 1000000)
   \<and> usecs_per_line (expected 2 1 6 False (1 / 10) (Scalar (127 / 2))) = 63 / 1000000 * 1000000"
  using frame_rate_is_reciprocal [OF single_plane_call] single_plane_call
    first_value_frame_period float_of_frame_period
    first_value_scan_line_period float_of_scan_line_period
  by (simp add: expected_def)

subsection \<open>Channels\<close>

lemma single_plane_channels:
  "map (\<lambda>channel. attrib_get channel ''channel'') (findall single_plane_doc path_channel)
     = [Some ''1'', Some ''2'', Some ''1'', Some ''2'', Some ''1'', Some ''2'']"
  by code_simp

text \<open>
  Claim C6. \<^verbatim>\<open>num_channels\<close> is the number of distinct items of
  \<^verbatim>\<open>channel_list\<close>, which holds \<^verbatim>\<open>int\<close> of the \<^verbatim>\<open>channel\<close> attribute of every
  \<^verbatim>\<open>File\<close> of every frame, one item for each. Six files that alternate between
  channel 1 and channel 2 give 2.
\<close>

theorem channels_counted_once:
  assumes "get_pv_metadata rt fs pvtiffile = Inr r"
  shows "\<exists>xml_root channel_list.
           scan_document fs pvtiffile = Inr xml_root
         \<and> list_all2 (\<lambda>channel n. \<exists>s. attrib_get channel ''channel'' = Some s \<and> int_of_str rt s = Some n)
              (findall xml_root path_channel) channel_list
         \<and> num_channels r = card (set channel_list)"
proof -
  from assms obtain xml_root where doc: "scan_document fs pvtiffile = Inr xml_root"
    and ex: "extract_metainfo rt xml_root = Inr r"
    by (rule get_pv_metadata_Inr)
  from ex show ?thesis
    by (rule extract_metainfo_Inr) (auto simp: doc comprehension_Inr_iff py_int_Inr_iff)
qed

theorem channels_counted_once_witness:
  "get_pv_metadata exact_runtime (scan_dir [settings_doc, single_plane_doc]) tif
     = Inr (expected 2 1 6 False (1 / 10) (Scalar (127 / 2)))
   \<and> scan_document (scan_dir [settings_doc, single_plane_doc]) tif = Inr single_plane_doc
   \<and> map (\<lambda>channel. attrib_get channel ''channel'') (findall single_plane_doc path_channel)
       = [Some ''1'', Some ''2'', Some ''1'', Some ''2'', Some ''1'', Some ''2'']
   \<and> num_channels (expected 2 1 6 False (1 / 10) (Scalar (127 / 2))) = 2"
  using channels_counted_once [OF single_plane_call] single_plane_call single_plane_document
    single_plane_channels
  by (simp add: expected_def)

subsection \<open>One plane\<close>

lemma py_attrib_Inr_iff: "py_attrib x = Inr e \<longleftrightarrow> x = Some e"
  by (simp add: py_attrib_def split: option.splits)

lemma py_np_float64_Inr_iff: "py_np_float64 rt x = Inr v \<longleftrightarrow> np_float64 rt x = Some v"
  by (simp add: py_np_float64_def split: option.splits)

lemma py_assert_Inr_iff: "py_assert cond msg = Inr u \<longleftrightarrow> cond"
  by (simp add: py_assert_def)

lemma resolve_z_single_plane:
  assumes "find_elem xml_root path_frame_zaxis = None"
    and "resolve_z rt xml_root = Inr (n_depths, z_fields, bidirection_z)"
  shows "n_depths = 1 \<and> bidirection_z = False
       \<and> (\<exists>e v. find_elem xml_root path_document_z = Some e
              \<and> np_float64 rt (attrib_get e ''value'') = Some v
              \<and> z_fields = Scalar v)"
  using assms
  by (auto simp: resolve_z_def Let_def and_then_Inr_iff py_attrib_Inr_iff py_np_float64_Inr_iff)

lemma single_plane_no_frame_zaxis: "find_elem single_plane_doc path_frame_zaxis = None"
  by code_simp



lemma extract_metainfo_resolve_z:
  assumes "extract_metainfo rt xml_root = Inr r"
  shows "resolve_z rt xml_root = Inr (num_planes r, fieldZ r, bidirectional_z r)"
  using assms by (rule extract_metainfo_Inr) simp








subsection \<open>The XML file of the scan\<close>

lemma locate_xml_Inr:
  assumes "locate_xml parent xml_files = Inr xml_root"
  shows "xml_root \<in> set xml_files \<and> findall xml_root path_sequence \<noteq> []"
  using assms
proof (induction xml_files)
  case Nil
  then show ?case by simp
next
  case (Cons x xs)
  show ?case
  proof (cases "py_bool (find_elem x path_sequence)")
    case True
    with Cons.prems have "xml_root = x" by simp
    moreover from True have "findall x path_sequence \<noteq> []"
      by (auto simp: py_bool_def find_elem_def split: list.splits option.splits)
    ultimately show ?thesis by simp
  next
    case False
    with Cons show ?thesis by simp
  qed
qed

lemma locate_xml_no_sequence:
  assumes "\<forall>x\<in>set xml_files. findall x path_sequence = []"
  shows "locate_xml parent xml_files
           = Inl (FileNotFoundError (''No PrarieView metadata XML file found at '' @ parent))"
  using assms by (induction xml_files) (simp_all add: py_bool_def find_elem_def)

text \<open>The loop stops at the first file for which the test of line 37 is true.\<close>

lemma locate_xml_first:
  "locate_xml parent xml_files =
     (case filter (\<lambda>x. py_bool (find_elem x path_sequence)) xml_files of
        [] \<Rightarrow> Inl (FileNotFoundError (''No PrarieView metadata XML file found at '' @ parent))
      | x # _ \<Rightarrow> Inr x)"
  by (induction xml_files) simp_all

lemma empty_first_sequence_glob:
  "glob_xml (scan_dir [empty_first_sequence_doc])
     (path_parent (scan_dir [empty_first_sequence_doc]) tif) = [empty_first_sequence_doc]"
  by code_simp

lemma empty_first_sequence_sequences:
  "map (\<lambda>e. children e = []) (findall empty_first_sequence_doc path_sequence) = [True, False]"
  by code_simp

lemma empty_first_sequence_truth:
  "py_bool (find_elem empty_first_sequence_doc path_sequence) = False"
  by code_simp

lemma empty_first_sequence_extract:
  "extract_metainfo exact_runtime empty_first_sequence_doc
     = Inr (expected 1 1 2 False (1 / 50) (Scalar (127 / 2)))"
  by code_simp

lemma empty_first_sequence_call:
  "get_pv_metadata exact_runtime (scan_dir [empty_first_sequence_doc]) tif
     = Inl (FileNotFoundError ''No PrarieView metadata XML file found at /data/scan'')"
  by code_simp

text \<open>
  Claim C5. The claim has the function select a file with a \<^verbatim>\<open>Sequence\<close> below its
  root and raise \<^verbatim>\<open>FileNotFoundError\<close> only for a directory without such a file.
  Line 37 tests the truth value of the first \<^verbatim>\<open>Sequence\<close> found where lines 100 to
  105 test \<^verbatim>\<open>is None\<close>, and an element without children is false. Here the only
  XML file of the directory has two \<^verbatim>\<open>Sequence\<close> elements, the first without
  children; the fields of the dictionary can all be extracted from it, and the call
  raises \<^verbatim>\<open>FileNotFoundError\<close>.
\<close>

theorem childless_first_sequence_is_not_found:
  "glob_xml (scan_dir [empty_first_sequence_doc])
     (path_parent (scan_dir [empty_first_sequence_doc]) tif) = [empty_first_sequence_doc]
   \<and> map (\<lambda>e. children e = []) (findall empty_first_sequence_doc path_sequence)
       = [True, False]
   \<and> py_bool (find_elem empty_first_sequence_doc path_sequence) = False
   \<and> extract_metainfo exact_runtime empty_first_sequence_doc
       = Inr (expected 1 1 2 False (1 / 50) (Scalar (127 / 2)))
   \<and> get_pv_metadata exact_runtime (scan_dir [empty_first_sequence_doc]) tif
       = Inl (FileNotFoundError ''No PrarieView metadata XML file found at /data/scan'')"
  using empty_first_sequence_glob empty_first_sequence_sequences empty_first_sequence_truth
    empty_first_sequence_extract empty_first_sequence_call
  by simp

subsection \<open>Comprehensions, \<^verbatim>\<open>all\<close> and \<^verbatim>\<open>index\<close>\<close>

lemma and_then_Inl_iff:
  "and_then m f = Inl e \<longleftrightarrow> m = Inl e \<or> (\<exists>x. m = Inr x \<and> f x = Inl e)"
  by (cases m) (simp_all add: and_then_def)

lemma comprehension_Inl:
  assumes "comprehension f xs = Inl e"
  shows "\<exists>x\<in>set xs. f x = Inl e"
  using assms by (induction xs) (auto simp: and_then_Inl_iff)

lemma comprehension_length:
  assumes "comprehension f xs = Inr ys"
  shows "length ys = length xs"
  using assms by (simp add: comprehension_Inr_iff list_all2_lengthD)

lemma comprehension_total:
  assumes "\<And>x. x \<in> set xs \<Longrightarrow> f x = Inr (g x)"
  shows "comprehension f xs = Inr (map g xs)"
  using assms by (induction xs) simp_all

lemma py_all_total:
  assumes "\<And>z. z \<in> set zs \<Longrightarrow> p z = Inr (q z)"
  shows "py_all p zs = Inr (list_all q zs)"
  using assms by (induction zs) simp_all

lemma py_getitem_first: "zs \<noteq> [] \<Longrightarrow> py_getitem zs 0 = Inr (hd zs)"
  by (cases zs) (simp_all add: py_getitem_def)

lemma py_getitem_nat: "i < length xs \<Longrightarrow> py_getitem xs (int i) = Inr (xs ! i)"
  by (simp add: py_getitem_def)

lemma controller_varies_eq:
  "controller_varies rt zs = Inr (\<not> list_all (\<lambda>z. f_eq rt z (hd zs)) zs)"
proof -
  have "py_all (\<lambda>z. and_then (py_getitem zs 0) (\<lambda>z0. Inr (f_eq rt z z0))) zs
          = Inr (list_all (\<lambda>z. f_eq rt z (hd zs)) zs)"
  proof (rule py_all_total)
    fix z assume "z \<in> set zs"
    then have "zs \<noteq> []" by auto
    then show "and_then (py_getitem zs 0) (\<lambda>z0. Inr (f_eq rt z z0)) = Inr (f_eq rt z (hd zs))"
      by (simp add: py_getitem_first)
  qed
  then show ?thesis by (simp add: controller_varies_def)
qed

lemma controller_varies_is_varies:
  assumes sym: "\<And>a b. f_eq rt a b \<Longrightarrow> f_eq rt b a"
    and trans: "\<And>a b c. f_eq rt a b \<Longrightarrow> f_eq rt b c \<Longrightarrow> f_eq rt a c"
  shows "controller_varies rt zs = Inr (varies rt zs)"
proof -
  have "list_all (\<lambda>z. f_eq rt z (hd zs)) zs \<longleftrightarrow> list_all (\<lambda>a. list_all (\<lambda>b. f_eq rt a b) zs) zs"
  proof (cases zs)
    case Nil
    then show ?thesis by simp
  next
    case (Cons z0 zs')
    show ?thesis
    proof
      assume l: "list_all (\<lambda>z. f_eq rt z (hd zs)) zs"
      then have all: "\<And>z. z \<in> set zs \<Longrightarrow> f_eq rt z z0"
        using Cons by (auto simp: list_all_iff)
      have "\<And>a b. a \<in> set zs \<Longrightarrow> b \<in> set zs \<Longrightarrow> f_eq rt a b"
        using all sym trans by blast
      then show "list_all (\<lambda>a. list_all (\<lambda>b. f_eq rt a b) zs) zs"
        by (simp add: list_all_iff)
    next
      assume "list_all (\<lambda>a. list_all (\<lambda>b. f_eq rt a b) zs) zs"
      then have "\<And>a. a \<in> set zs \<Longrightarrow> f_eq rt a z0"
        using Cons by (auto simp: list_all_iff)
      then show "list_all (\<lambda>z. f_eq rt z (hd zs)) zs"
        using Cons by (simp add: list_all_iff)
    qed
  qed
  then show ?thesis by (simp add: controller_varies_eq varies_def)
qed

lemma index_true_bound:
  assumes "index_true bs = Inr i"
  shows "i < length bs \<and> bs ! i"
  using assms
proof (induction bs arbitrary: i)
  case Nil
  then show ?case by simp
next
  case (Cons b bs)
  then show ?case
    by (cases b) (auto simp: and_then_Inr_iff)
qed

lemma index_true_filter:
  assumes "filter P xs = [x]"
  shows "\<exists>i. index_true (map P xs) = Inr i \<and> i < length xs \<and> xs ! i = x"
  using assms
proof (induction xs)
  case Nil
  then show ?case by simp
next
  case (Cons y ys)
  show ?case
  proof (cases "P y")
    case True
    with Cons.prems show ?thesis by simp
  next
    case False
    with Cons.prems have "filter P ys = [x]" by simp
    from Cons.IH [OF this] obtain i where "index_true (map P ys) = Inr i" "i < length ys" "ys ! i = x"
      by blast
    with False show ?thesis by simp
  qed
qed

lemma py_sum_map: "py_sum (map P xs) = length (filter P xs)"
  by (induction xs) (simp_all add: py_sum_def)

subsection \<open>Several planes\<close>

lemma path_subindex_frames:
  "findall xml_root (path_subindex s)
     = concat (map (frame_z_entries s) (findall xml_root path_cycle1_frame))"
proof -
  have eq: "path_subindex s
          = path_cycle1_frame @ (steps_zaxis @ [Child ''SubindexedValue'', AttrEq ''subindex'' s])"
    by (simp add: path_subindex_def path_frame_zaxis_def path_cycle1_frame_def)
  have "findall xml_root (path_subindex s)
          = run_path (steps_zaxis @ [Child ''SubindexedValue'', AttrEq ''subindex'' s])
              (findall xml_root path_cycle1_frame)"
    unfolding eq by (rule findall_append)
  also have "\<dots> = concat (map (frame_z_entries s) (findall xml_root path_cycle1_frame))"
    unfolding frame_z_entries_def by (rule run_path_concat)
  finally show ?thesis .
qed

lemma multi_plane_has_sequence:
  assumes "find_elem xml_root path_frame_zaxis \<noteq> None"
  shows "\<exists>e. find_elem xml_root path_sequence = Some e"
proof -
  have eq: "path_frame_zaxis = path_sequence @ ([AttrEq ''cycle'' ''1'', Child ''Frame''] @ steps_zaxis)"
    by (simp add: path_frame_zaxis_def path_cycle1_def path_sequence_def)
  have "findall xml_root path_frame_zaxis
      = run_path ([AttrEq ''cycle'' ''1'', Child ''Frame''] @ steps_zaxis) (findall xml_root path_sequence)"
    unfolding eq by (rule findall_append)
  with assms have "findall xml_root path_sequence \<noteq> []"
    by (auto simp: find_elem_None_iff)
  then show ?thesis
    by (cases "findall xml_root path_sequence") (simp_all add: find_elem_def)
qed

text \<open>After the frame indices have been converted, the rest of the multi-plane branch.\<close>

lemma resolve_z_multi_plane:
  assumes "find_elem xml_root path_frame_zaxis \<noteq> None"
    and "comprehension (\<lambda>plane. py_int rt (attrib_get plane ''index''))
           (findall xml_root path_cycle1_frame) = Inr planes"
  shows "\<exists>bidirection_z. resolve_z rt xml_root =
     and_then (if length (findall xml_root path_z_controllers) > 1
               then several_controllers rt xml_root else Inr (one_controller xml_root))
       (\<lambda>z_fields.
     and_then (py_assert (z_len z_fields = card (set planes))
                 ''Number of z fields does not match number of depths.'')
       (\<lambda>_. Inr (card (set planes), z_fields, bidirection_z)))"
proof -
  from multi_plane_has_sequence [OF assms(1)] obtain e
    where e: "find_elem xml_root path_sequence = Some e" by blast
  from assms(1) have multi: "(find_elem xml_root path_frame_zaxis = None) = False"
    by simp
  show ?thesis
    unfolding resolve_z_def Let_def multi e py_attrib_def assms(2)
    by (simp del: not_None_eq) blast
qed

lemma resolve_z_multi_plane_Inr:
  assumes "find_elem xml_root path_frame_zaxis \<noteq> None"
    and "resolve_z rt xml_root = Inr (n_depths, z_fields, bidirection_z)"
  shows "\<exists>planes.
           comprehension (\<lambda>plane. py_int rt (attrib_get plane ''index''))
             (findall xml_root path_cycle1_frame) = Inr planes
         \<and> n_depths = card (set planes)
         \<and> z_len z_fields = card (set planes)
         \<and> (if length (findall xml_root path_z_controllers) > 1
             then several_controllers rt xml_root else Inr (one_controller xml_root))
             = Inr z_fields"
  using assms
  by (auto simp: resolve_z_def Let_def and_then_Inr_iff py_assert_Inr_iff
           split: if_splits)

lemma several_controllers_result:
  assumes collected: "comprehension (controller_values rt xml_root)
                        (findall xml_root path_controllers) = Inr z_repeats"
  shows "several_controllers rt xml_root =
           (if length (filter (\<lambda>zs. \<not> list_all (\<lambda>z. f_eq rt z (hd zs)) zs) z_repeats) = 1
            then Inr (Floats (hd (filter (\<lambda>zs. \<not> list_all (\<lambda>z. f_eq rt z (hd zs)) zs) z_repeats)))
            else Inl (AssertionError ''Multiple controllers changing z depth is not supported''))"
proof -
  let ?P = "\<lambda>zs. \<not> list_all (\<lambda>z. f_eq rt z (hd zs)) zs"
  have ca: "comprehension (controller_varies rt) z_repeats = Inr (map ?P z_repeats)"
    by (rule comprehension_total) (simp add: controller_varies_eq)
  show ?thesis
  proof (cases "length (filter ?P z_repeats) = 1")
    case True
    then obtain zs where f: "filter ?P z_repeats = [zs]"
      by (cases "filter ?P z_repeats") simp_all
    from index_true_filter [OF f] obtain i
      where "index_true (map ?P z_repeats) = Inr i" "i < length z_repeats" "z_repeats ! i = zs"
      by blast
    with True f show ?thesis
      by (simp add: several_controllers_def collected ca py_sum_map py_assert_def py_getitem_nat)
  next
    case False
    then show ?thesis
      by (simp add: several_controllers_def collected ca py_sum_map py_assert_def)
  qed
qed

lemma varies_filter:
  assumes sym: "\<And>a b. f_eq rt a b \<Longrightarrow> f_eq rt b a"
    and trans: "\<And>a b c. f_eq rt a b \<Longrightarrow> f_eq rt b c \<Longrightarrow> f_eq rt a c"
  shows "(\<lambda>zs. \<not> list_all (\<lambda>z. f_eq rt z (hd zs)) zs) = varies rt"
proof
  fix zs
  from controller_varies_is_varies [of rt zs] sym trans
  have "controller_varies rt zs = Inr (varies rt zs)" by blast
  then show "(\<not> list_all (\<lambda>z. f_eq rt z (hd zs)) zs) = varies rt zs"
    by (simp add: controller_varies_eq)
qed

subsection \<open>Several planes, one controller\<close>

lemma one_controller_frames:
  "one_controller xml_root
     = Texts (map (\<lambda>z. attrib_get z ''value'')
         (concat (map (frame_z_entries ''0'') (findall xml_root path_cycle1_frame))))"
  by (simp only: one_controller_def path_subindex_frames)

lemma three_plane_document: "scan_document (scan_dir [three_plane_doc]) tif = Inr three_plane_doc"
  by code_simp

lemma three_plane_call:
  "get_pv_metadata exact_runtime (scan_dir [three_plane_doc]) tif
     = Inr (expected 1 3 3 True (1 / 25) (Texts [Some ''10'', Some ''20'', Some ''30'']))"
  by code_simp

lemma three_plane_multi_plane: "find_elem three_plane_doc path_frame_zaxis \<noteq> None"
  by code_simp

lemma three_plane_z_controllers: "length (findall three_plane_doc path_z_controllers) = 1"
  by code_simp

lemma three_plane_planes:
  "comprehension (\<lambda>plane. py_int exact_runtime (attrib_get plane ''index''))
     (findall three_plane_doc path_cycle1_frame) = Inr [1, 2, 3]"
  by code_simp

lemma three_plane_entries:
  "map (\<lambda>z. attrib_get z ''value'')
     (concat (map (frame_z_entries ''0'') (findall three_plane_doc path_cycle1_frame)))
     = [Some ''10'', Some ''20'', Some ''30'']"
  by code_simp

lemma short_document: "scan_document (scan_dir [short_doc]) tif = Inr short_doc"
  by code_simp

lemma short_call:
  "get_pv_metadata exact_runtime (scan_dir [short_doc]) tif
     = Inl (AssertionError ''Number of z fields does not match number of depths.'')"
  by code_simp

lemma short_multi_plane: "find_elem short_doc path_frame_zaxis \<noteq> None"
  by code_simp

lemma short_z_controllers: "length (findall short_doc path_z_controllers) = 1"
  by code_simp

lemma short_planes:
  "comprehension (\<lambda>plane. py_int exact_runtime (attrib_get plane ''index''))
     (findall short_doc path_cycle1_frame) = Inr [1, 2, 3]"
  by code_simp

lemma short_entries:
  "length (concat (map (frame_z_entries ''0'') (findall short_doc path_cycle1_frame))) = 2"
  by code_simp

lemma uneven_z_controllers: "length (findall uneven_doc path_z_controllers) = 1"
  by code_simp

lemma uneven_planes:
  "comprehension (\<lambda>plane. py_int exact_runtime (attrib_get plane ''index''))
     (findall uneven_doc path_cycle1_frame) = Inr [1, 2, 3]"
  by code_simp

lemma uneven_entries:
  "map (\<lambda>f. map (\<lambda>z. attrib_get z ''value'') (frame_z_entries ''0'' f))
     (findall uneven_doc path_cycle1_frame) = [[Some ''10''], [Some ''20'', Some ''21''], []]"
  by code_simp

lemma uneven_call:
  "get_pv_metadata exact_runtime (scan_dir [uneven_doc]) tif
     = Inr (expected 1 3 3 True (1 / 25) (Texts [Some ''10'', Some ''20'', Some ''21'']))"
  by code_simp

text \<open>
  Against claim C2 as stated: with one controller entry at frame index 1, the three
  frames of cycle 1 have one, two and no entry with subindex 0; the three values pass
  the check of line 161 and are returned, though they are not one value for each
  frame.
\<close>

theorem frames_give_any_number_of_values:
  "length (findall uneven_doc path_z_controllers) = 1
   \<and> comprehension (\<lambda>plane. py_int exact_runtime (attrib_get plane ''index''))
        (findall uneven_doc path_cycle1_frame) = Inr [1, 2, 3]
   \<and> map (\<lambda>f. map (\<lambda>z. attrib_get z ''value'') (frame_z_entries ''0'' f))
        (findall uneven_doc path_cycle1_frame) = [[Some ''10''], [Some ''20'', Some ''21''], []]
   \<and> get_pv_metadata exact_runtime (scan_dir [uneven_doc]) tif
       = Inr (expected 1 3 3 True (1 / 25) (Texts [Some ''10'', Some ''20'', Some ''21'']))"
  using uneven_z_controllers uneven_planes uneven_entries uneven_call
  by simp

text \<open>
  Claim C2, amended. In a document with a Z-axis node in a state block of a frame of
  cycle 1, \<^verbatim>\<open>num_planes\<close> of a returned dictionary is the number of distinct items
  of \<^verbatim>\<open>planes\<close>, which holds \<^verbatim>\<open>int\<close> of the \<^verbatim>\<open>index\<close> of every frame of cycle 1,
  and \<^verbatim>\<open>fieldZ\<close> has that many items. With one controller entry at frame index 1,
  \<^verbatim>\<open>fieldZ\<close> holds the \<^verbatim>\<open>value\<close> of the entries with subindex 0, frame after frame
  in the order of the frames of cycle 1, as many for a frame as its state block has
  (none, one or more); and when their number is not the number of distinct frame
  indices, the resolver raises the assertion of line 161 and no dictionary is
  returned.
\<close>

theorem one_controller_depths:
  assumes doc: "scan_document fs pvtiffile = Inr xml_root"
    and multi: "find_elem xml_root path_frame_zaxis \<noteq> None"
  shows "(get_pv_metadata rt fs pvtiffile = Inr r \<longrightarrow>
            (\<exists>planes.
                comprehension (\<lambda>plane. py_int rt (attrib_get plane ''index''))
                  (findall xml_root path_cycle1_frame) = Inr planes
              \<and> num_planes r = card (set planes))
          \<and> z_len (fieldZ r) = num_planes r)
       \<and> (length (findall xml_root path_z_controllers) = 1 \<longrightarrow>
            (get_pv_metadata rt fs pvtiffile = Inr r \<longrightarrow>
               fieldZ r = Texts (map (\<lambda>z. attrib_get z ''value'')
                  (concat (map (frame_z_entries ''0'') (findall xml_root path_cycle1_frame)))))
          \<and> (comprehension (\<lambda>plane. py_int rt (attrib_get plane ''index''))
                (findall xml_root path_cycle1_frame) = Inr planes
              \<and> length (concat (map (frame_z_entries ''0'') (findall xml_root path_cycle1_frame)))
                  \<noteq> card (set planes) \<longrightarrow>
               resolve_z rt xml_root
                 = Inl (AssertionError ''Number of z fields does not match number of depths.'')
             \<and> get_pv_metadata rt fs pvtiffile \<noteq> Inr r))"
proof (intro conjI impI)
  assume ret: "get_pv_metadata rt fs pvtiffile = Inr r"
  with doc have "extract_metainfo rt xml_root = Inr r"
    by (simp add: get_pv_metadata_def)
  then have z: "resolve_z rt xml_root = Inr (num_planes r, fieldZ r, bidirectional_z r)"
    by (rule extract_metainfo_resolve_z)
  from resolve_z_multi_plane_Inr [OF multi z]
  show "\<exists>planes.
           comprehension (\<lambda>plane. py_int rt (attrib_get plane ''index''))
             (findall xml_root path_cycle1_frame) = Inr planes
         \<and> num_planes r = card (set planes)"
    and "z_len (fieldZ r) = num_planes r"
    by auto
next
  assume one: "length (findall xml_root path_z_controllers) = 1"
    and ret: "get_pv_metadata rt fs pvtiffile = Inr r"
  from ret doc have "extract_metainfo rt xml_root = Inr r"
    by (simp add: get_pv_metadata_def)
  then have z: "resolve_z rt xml_root = Inr (num_planes r, fieldZ r, bidirectional_z r)"
    by (rule extract_metainfo_resolve_z)
  from resolve_z_multi_plane_Inr [OF multi z] one
  have "fieldZ r = one_controller xml_root" by auto
  then show "fieldZ r = Texts (map (\<lambda>z. attrib_get z ''value'')
                  (concat (map (frame_z_entries ''0'') (findall xml_root path_cycle1_frame))))"
    by (simp only: one_controller_frames)
next
  assume one: "length (findall xml_root path_z_controllers) = 1"
    and mismatch: "comprehension (\<lambda>plane. py_int rt (attrib_get plane ''index''))
                (findall xml_root path_cycle1_frame) = Inr planes
              \<and> length (concat (map (frame_z_entries ''0'') (findall xml_root path_cycle1_frame)))
                  \<noteq> card (set planes)"
  from resolve_z_multi_plane [OF multi conjunct1 [OF mismatch]] one mismatch
  show err: "resolve_z rt xml_root
                 = Inl (AssertionError ''Number of z fields does not match number of depths.'')"
    by (auto simp: one_controller_frames py_assert_def)
  show "get_pv_metadata rt fs pvtiffile \<noteq> Inr r"
  proof
    assume "get_pv_metadata rt fs pvtiffile = Inr r"
    with doc have "extract_metainfo rt xml_root = Inr r"
      by (simp add: get_pv_metadata_def)
    then have "resolve_z rt xml_root = Inr (num_planes r, fieldZ r, bidirectional_z r)"
      by (rule extract_metainfo_resolve_z)
    with err show False by simp
  qed
qed

theorem one_controller_depths_witness:
  "scan_document (scan_dir [three_plane_doc]) tif = Inr three_plane_doc
   \<and> find_elem three_plane_doc path_frame_zaxis \<noteq> None
   \<and> length (findall three_plane_doc path_z_controllers) = 1
   \<and> get_pv_metadata exact_runtime (scan_dir [three_plane_doc]) tif
       = Inr (expected 1 3 3 True (1 / 25) (Texts [Some ''10'', Some ''20'', Some ''30'']))
   \<and> comprehension (\<lambda>plane. py_int exact_runtime (attrib_get plane ''index''))
        (findall three_plane_doc path_cycle1_frame) = Inr [1, 2, 3]
   \<and> num_planes (expected 1 3 3 True (1 / 25) (Texts [Some ''10'', Some ''20'', Some ''30'']))
       = card (set [1, 2, 3 :: int])
   \<and> fieldZ (expected 1 3 3 True (1 / 25) (Texts [Some ''10'', Some ''20'', Some ''30'']))
       = Texts [Some ''10'', Some ''20'', Some ''30'']
   \<and> scan_document (scan_dir [short_doc]) tif = Inr short_doc
   \<and> find_elem short_doc path_frame_zaxis \<noteq> None
   \<and> length (findall short_doc path_z_controllers) = 1
   \<and> comprehension (\<lambda>plane. py_int exact_runtime (attrib_get plane ''index''))
        (findall short_doc path_cycle1_frame) = Inr [1, 2, 3]
   \<and> length (concat (map (frame_z_entries ''0'') (findall short_doc path_cycle1_frame))) = 2
   \<and> resolve_z exact_runtime short_doc
       = Inl (AssertionError ''Number of z fields does not match number of depths.'')
   \<and> get_pv_metadata exact_runtime (scan_dir [short_doc]) tif
       = Inl (AssertionError ''Number of z fields does not match number of depths.'')"
proof -
  let ?r = "expected 1 3 3 True (1 / 25) (Texts [Some ''10'', Some ''20'', Some ''30''])"
  have a: "num_planes ?r = card (set [1, 2, 3 :: int])
         \<and> fieldZ ?r = Texts [Some ''10'', Some ''20'', Some ''30'']"
    using one_controller_depths
            [OF three_plane_document three_plane_multi_plane, of exact_runtime ?r]
      three_plane_call three_plane_planes three_plane_z_controllers three_plane_entries
    by (simp add: expected_def)
  have b: "resolve_z exact_runtime short_doc
       = Inl (AssertionError ''Number of z fields does not match number of depths.'')"
    using one_controller_depths
            [OF short_document short_multi_plane, of exact_runtime _ "[1, 2, 3]"]
      short_planes short_z_controllers short_entries
    by simp
  from a b three_plane_document three_plane_multi_plane three_plane_z_controllers
    three_plane_call three_plane_planes short_document short_multi_plane short_z_controllers
    short_planes short_entries short_call
  show ?thesis by simp
qed

subsection \<open>Several planes, several controllers\<close>

lemma controller_values_frames:
  assumes "apostrophe \<notin> set (py_format (attrib_get controller ''subindex''))"
  shows "controller_values rt xml_root controller = Inr zs \<longleftrightarrow>
     list_all2 (\<lambda>z v. py_float rt (attrib_get z ''value'') = Inr v)
       (concat (map (frame_z_entries (py_format (attrib_get controller ''subindex'')))
                  (findall xml_root path_cycle1_frame))) zs"
  using assms
  by (simp add: controller_values_def findall_subindex_def comprehension_Inr_iff
        path_subindex_frames)

lemma one_moves_document: "scan_document (scan_dir [one_moves_doc]) tif = Inr one_moves_doc"
  by code_simp

lemma one_moves_call:
  "get_pv_metadata exact_runtime (scan_dir [one_moves_doc]) tif
     = Inr (expected 1 3 3 False (1 / 25) (Floats [1, 2, 3]))"
  by code_simp

lemma one_moves_multi_plane: "find_elem one_moves_doc path_frame_zaxis \<noteq> None"
  by code_simp

lemma one_moves_z_controllers: "length (findall one_moves_doc path_z_controllers) = 2"
  by code_simp

lemma one_moves_planes:
  "comprehension (\<lambda>plane. py_int exact_runtime (attrib_get plane ''index''))
     (findall one_moves_doc path_cycle1_frame) = Inr [1, 2, 3]"
  by code_simp

lemma one_moves_collected:
  "comprehension (controller_values exact_runtime one_moves_doc)
     (findall one_moves_doc path_controllers) = Inr [[100, 100, 100], [1, 2, 3]]"
  by code_simp

lemma one_moves_varies:
  "filter (varies exact_runtime) [[100, 100, 100], [1, 2, 3]] = [[1, 2, 3]]"
  by code_simp

lemma both_move_document: "scan_document (scan_dir [both_move_doc]) tif = Inr both_move_doc"
  by code_simp

lemma both_move_call:
  "get_pv_metadata exact_runtime (scan_dir [both_move_doc]) tif
     = Inl (AssertionError ''Multiple controllers changing z depth is not supported'')"
  by code_simp

lemma both_move_multi_plane: "find_elem both_move_doc path_frame_zaxis \<noteq> None"
  by code_simp

lemma both_move_z_controllers: "length (findall both_move_doc path_z_controllers) = 2"
  by code_simp

lemma both_move_planes:
  "comprehension (\<lambda>plane. py_int exact_runtime (attrib_get plane ''index''))
     (findall both_move_doc path_cycle1_frame) = Inr [1, 2, 3]"
  by code_simp

lemma both_move_collected:
  "comprehension (controller_values exact_runtime both_move_doc)
     (findall both_move_doc path_controllers) = Inr [[100, 101, 100], [1, 2, 3]]"
  by code_simp

lemma both_move_varies:
  "length (filter (varies exact_runtime) [[100, 101, 100], [1, 2, 3]]) = 2"
  by code_simp

lemma both_rest_document: "scan_document (scan_dir [both_rest_doc]) tif = Inr both_rest_doc"
  by code_simp

lemma both_rest_call:
  "get_pv_metadata exact_runtime (scan_dir [both_rest_doc]) tif
     = Inl (AssertionError ''Multiple controllers changing z depth is not supported'')"
  by code_simp

lemma both_rest_multi_plane: "find_elem both_rest_doc path_frame_zaxis \<noteq> None"
  by code_simp

lemma both_rest_z_controllers: "length (findall both_rest_doc path_z_controllers) = 2"
  by code_simp

lemma both_rest_planes:
  "comprehension (\<lambda>plane. py_int exact_runtime (attrib_get plane ''index''))
     (findall both_rest_doc path_cycle1_frame) = Inr [1, 2, 3]"
  by code_simp

lemma both_rest_collected:
  "comprehension (controller_values exact_runtime both_rest_doc)
     (findall both_rest_doc path_controllers) = Inr [[100, 100, 100], [1, 1, 1]]"
  by code_simp

lemma both_rest_varies:
  "length (filter (varies exact_runtime) [[100, 100, 100], [1, 1, 1]]) = 0"
  by code_simp

lemma repeated_subindex_z_controllers:
  "length (findall repeated_subindex_doc path_z_controllers) = 3"
  by code_simp

lemma repeated_subindex_controllers:
  "map (\<lambda>controller. attrib_get controller ''subindex'')
     (findall repeated_subindex_doc path_controllers) = [Some ''0'', Some ''1'', Some ''1'']"
  by code_simp

lemma repeated_subindex_planes:
  "comprehension (\<lambda>plane. py_int exact_runtime (attrib_get plane ''index''))
     (findall repeated_subindex_doc path_cycle1_frame) = Inr [1, 2, 3, 4]"
  by code_simp

lemma repeated_subindex_rest:
  "map (\<lambda>z. attrib_get z ''value'') (findall repeated_subindex_doc (path_subindex ''0''))
     = [Some ''100'', Some ''100'', Some ''100'', Some ''100'']"
  by code_simp

lemma repeated_subindex_moves:
  "map (\<lambda>z. attrib_get z ''value'') (findall repeated_subindex_doc (path_subindex ''1''))
     = [Some ''1'', Some ''2'', Some ''3'', Some ''4'']"
  by code_simp

lemma repeated_subindex_collected:
  "comprehension (controller_values exact_runtime repeated_subindex_doc)
     (findall repeated_subindex_doc path_controllers)
     = Inr [[100, 100, 100, 100], [1, 2, 3, 4], [1, 2, 3, 4]]"
  by code_simp

lemma repeated_subindex_call:
  "get_pv_metadata exact_runtime (scan_dir [repeated_subindex_doc]) tif
     = Inl (AssertionError ''Multiple controllers changing z depth is not supported'')"
  by code_simp

lemma one_moves_subindex:
  "map (\<lambda>controller. py_format (attrib_get controller ''subindex''))
     (findall one_moves_doc path_controllers) = [''0'', ''1'']"
  by code_simp

lemma both_move_subindex:
  "map (\<lambda>controller. py_format (attrib_get controller ''subindex''))
     (findall both_move_doc path_controllers) = [''0'', ''1'']"
  by code_simp

lemma both_rest_subindex:
  "map (\<lambda>controller. py_format (attrib_get controller ''subindex''))
     (findall both_rest_doc path_controllers) = [''0'', ''1'']"
  by code_simp

lemma plain_subindex:
  assumes "map (\<lambda>controller. py_format (attrib_get controller ''subindex'')) controllers
             = [''0'', ''1'']"
  shows "\<forall>controller\<in>set controllers.
           apostrophe \<notin> set (py_format (attrib_get controller ''subindex''))"
proof
  fix controller
  assume "controller \<in> set controllers"
  then have "py_format (attrib_get controller ''subindex'')
               \<in> set (map (\<lambda>controller. py_format (attrib_get controller ''subindex''))
                         controllers)"
    by simp
  then have "py_format (attrib_get controller ''subindex'') \<in> {''0'', ''1''}"
    by (simp only: assms) simp
  then show "apostrophe \<notin> set (py_format (attrib_get controller ''subindex''))"
    by (auto simp: apostrophe_def)
qed

text \<open>
  Against claim C1 as stated: the first frame lists subindex 1 twice. Taken by
  subindex there are two controllers, 0 at rest and 1 moving through four values for
  four planes; the source collects one list for each of the three entries, two of the
  lists vary, and the call raises the assertion of line 149.
\<close>

theorem repeated_subindex_counts_twice:
  "length (findall repeated_subindex_doc path_z_controllers) = 3
   \<and> map (\<lambda>controller. attrib_get controller ''subindex'')
        (findall repeated_subindex_doc path_controllers) = [Some ''0'', Some ''1'', Some ''1'']
   \<and> comprehension (\<lambda>plane. py_int exact_runtime (attrib_get plane ''index''))
        (findall repeated_subindex_doc path_cycle1_frame) = Inr [1, 2, 3, 4]
   \<and> map (\<lambda>z. attrib_get z ''value'') (findall repeated_subindex_doc (path_subindex ''0''))
       = [Some ''100'', Some ''100'', Some ''100'', Some ''100'']
   \<and> map (\<lambda>z. attrib_get z ''value'') (findall repeated_subindex_doc (path_subindex ''1''))
       = [Some ''1'', Some ''2'', Some ''3'', Some ''4'']
   \<and> comprehension (controller_values exact_runtime repeated_subindex_doc)
        (findall repeated_subindex_doc path_controllers)
       = Inr [[100, 100, 100, 100], [1, 2, 3, 4], [1, 2, 3, 4]]
   \<and> get_pv_metadata exact_runtime (scan_dir [repeated_subindex_doc]) tif
       = Inl (AssertionError ''Multiple controllers changing z depth is not supported'')"
  using repeated_subindex_z_controllers repeated_subindex_controllers repeated_subindex_planes
    repeated_subindex_rest repeated_subindex_moves repeated_subindex_collected
    repeated_subindex_call
  by simp

text \<open>
  Claim C1, amended. In a document with a Z-axis node in a state block of a frame of
  cycle 1 and more than one controller entry at frame index 1, where no subindex text
  of the children of the Z-axis node at frame index 1 has an apostrophe, and once the
  frame indices and the values have been converted: one list is collected for each of
  these children (so two for a subindex that is listed twice); it holds \<^verbatim>\<open>float\<close>
  of the \<^verbatim>\<open>value\<close> of the entries with the subindex of the child, frame after frame
  in the order of the frames of cycle 1; the item of \<^verbatim>\<open>controller_assert\<close> for a
  list says whether not all of its values are equal (float equality being symmetric
  and transitive); when exactly one list varies, \<^verbatim>\<open>fieldZ\<close> of a returned dictionary
  is that list, and the resolver returns it when its length is the number of planes;
  when none or more than one varies, the resolver raises the assertion of line 149
  and no dictionary is returned.
\<close>

theorem several_controllers_disambiguated:
  assumes doc: "scan_document fs pvtiffile = Inr xml_root"
    and multi: "find_elem xml_root path_frame_zaxis \<noteq> None"
    and several: "1 < length (findall xml_root path_z_controllers)"
    and planes: "comprehension (\<lambda>plane. py_int rt (attrib_get plane ''index''))
                   (findall xml_root path_cycle1_frame) = Inr planes"
    and collected: "comprehension (controller_values rt xml_root)
                      (findall xml_root path_controllers) = Inr z_repeats"
    and plain: "\<forall>controller\<in>set (findall xml_root path_controllers).
                  apostrophe \<notin> set (py_format (attrib_get controller ''subindex''))"
    and symmetric: "\<forall>a b. f_eq rt a b \<longrightarrow> f_eq rt b a"
    and transitive: "\<forall>a b c. f_eq rt a b \<longrightarrow> f_eq rt b c \<longrightarrow> f_eq rt a c"
  shows "length z_repeats = length (findall xml_root path_controllers)
       \<and> list_all2
           (\<lambda>controller zs.
              list_all2 (\<lambda>z v. py_float rt (attrib_get z ''value'') = Inr v)
                (concat (map (frame_z_entries (py_format (attrib_get controller ''subindex'')))
                           (findall xml_root path_cycle1_frame))) zs)
           (findall xml_root path_controllers) z_repeats
       \<and> comprehension (controller_varies rt) z_repeats = Inr (map (varies rt) z_repeats)
       \<and> (filter (varies rt) z_repeats = [zs] \<longrightarrow>
            (get_pv_metadata rt fs pvtiffile = Inr r \<longrightarrow> fieldZ r = Floats zs)
          \<and> (length zs = card (set planes) \<longrightarrow>
               (\<exists>bidirection_z.
                  resolve_z rt xml_root = Inr (card (set planes), Floats zs, bidirection_z)))
          \<and> (length zs \<noteq> card (set planes) \<longrightarrow>
               resolve_z rt xml_root
                 = Inl (AssertionError ''Number of z fields does not match number of depths.'')))
       \<and> (length (filter (varies rt) z_repeats) \<noteq> 1 \<longrightarrow>
            resolve_z rt xml_root
              = Inl (AssertionError ''Multiple controllers changing z depth is not supported'')
          \<and> get_pv_metadata rt fs pvtiffile \<noteq> Inr r)"
proof -
  from symmetric have sym: "\<And>a b. f_eq rt a b \<Longrightarrow> f_eq rt b a"
    by blast
  from transitive have trans: "\<And>a b c. f_eq rt a b \<Longrightarrow> f_eq rt b c \<Longrightarrow> f_eq rt a c"
    by blast
  have P: "(\<lambda>zs. \<not> list_all (\<lambda>z. f_eq rt z (hd zs)) zs) = varies rt"
    using sym trans by (rule varies_filter)
  have sc: "several_controllers rt xml_root =
           (if length (filter (varies rt) z_repeats) = 1
            then Inr (Floats (hd (filter (varies rt) z_repeats)))
            else Inl (AssertionError ''Multiple controllers changing z depth is not supported''))"
    using several_controllers_result [OF collected] by (simp only: P)
  from resolve_z_multi_plane [OF multi planes] several obtain bidirection_z
    where rz: "resolve_z rt xml_root =
       and_then (several_controllers rt xml_root)
         (\<lambda>z_fields.
       and_then (py_assert (z_len z_fields = card (set planes))
                   ''Number of z fields does not match number of depths.'')
         (\<lambda>_. Inr (card (set planes), z_fields, bidirection_z)))"
    by auto
  have ret: "resolve_z rt xml_root = Inr (num_planes r, fieldZ r, bidirectional_z r)"
    if "get_pv_metadata rt fs pvtiffile = Inr r"
  proof -
    from that doc have "extract_metainfo rt xml_root = Inr r"
      by (simp add: get_pv_metadata_def)
    then show ?thesis by (rule extract_metainfo_resolve_z)
  qed
  from collected
  have all: "list_all2 (\<lambda>controller zs. controller_values rt xml_root controller = Inr zs)
               (findall xml_root path_controllers) z_repeats"
    by (simp only: comprehension_Inr_iff)
  then have c0: "length z_repeats = length (findall xml_root path_controllers)"
    by (simp add: list_all2_lengthD)
  have c1: "list_all2
           (\<lambda>controller zs.
              list_all2 (\<lambda>z v. py_float rt (attrib_get z ''value'') = Inr v)
                (concat (map (frame_z_entries (py_format (attrib_get controller ''subindex'')))
                           (findall xml_root path_cycle1_frame))) zs)
           (findall xml_root path_controllers) z_repeats"
  proof (rule list_all2_all_nthI)
    show "length (findall xml_root path_controllers) = length z_repeats"
      using c0 by simp
  next
    fix i
    assume i: "i < length (findall xml_root path_controllers)"
    with plain
    have a: "apostrophe \<notin> set (py_format (attrib_get (findall xml_root path_controllers ! i)
                                              ''subindex''))"
      by simp
    from all i have "controller_values rt xml_root (findall xml_root path_controllers ! i)
                       = Inr (z_repeats ! i)"
      by (rule list_all2_nthD)
    with controller_values_frames [OF a]
    show "list_all2 (\<lambda>z v. py_float rt (attrib_get z ''value'') = Inr v)
            (concat (map (frame_z_entries
                            (py_format (attrib_get (findall xml_root path_controllers ! i)
                                          ''subindex'')))
                       (findall xml_root path_cycle1_frame))) (z_repeats ! i)"
      by blast
  qed
  have c2: "comprehension (controller_varies rt) z_repeats = Inr (map (varies rt) z_repeats)"
    by (rule comprehension_total) (rule controller_varies_is_varies [OF sym trans])
  have c3: "(get_pv_metadata rt fs pvtiffile = Inr r \<longrightarrow> fieldZ r = Floats zs)
          \<and> (length zs = card (set planes) \<longrightarrow>
               (\<exists>bidirection_z.
                  resolve_z rt xml_root = Inr (card (set planes), Floats zs, bidirection_z)))
          \<and> (length zs \<noteq> card (set planes) \<longrightarrow>
               resolve_z rt xml_root
                 = Inl (AssertionError ''Number of z fields does not match number of depths.''))"
    if one: "filter (varies rt) z_repeats = [zs]"
  proof -
    from one sc have s: "several_controllers rt xml_root = Inr (Floats zs)" by simp
    have rz': "resolve_z rt xml_root =
       and_then (py_assert (length zs = card (set planes))
                   ''Number of z fields does not match number of depths.'')
         (\<lambda>_. Inr (card (set planes), Floats zs, bidirection_z))"
      by (simp add: rz s)
    show ?thesis
    proof (intro conjI impI)
      assume "get_pv_metadata rt fs pvtiffile = Inr r"
      from ret [OF this] rz' show "fieldZ r = Floats zs"
        by (auto simp: and_then_Inr_iff)
    next
      assume "length zs = card (set planes)"
      with rz' show "\<exists>bidirection_z.
                  resolve_z rt xml_root = Inr (card (set planes), Floats zs, bidirection_z)"
        by (simp add: py_assert_def)
    next
      assume "length zs \<noteq> card (set planes)"
      with rz' show "resolve_z rt xml_root
                 = Inl (AssertionError ''Number of z fields does not match number of depths.'')"
        by (simp add: py_assert_def)
    qed
  qed
  have c4: "resolve_z rt xml_root
              = Inl (AssertionError ''Multiple controllers changing z depth is not supported'')
          \<and> get_pv_metadata rt fs pvtiffile \<noteq> Inr r"
    if many: "length (filter (varies rt) z_repeats) \<noteq> 1"
  proof -
    from many sc rz have err: "resolve_z rt xml_root
              = Inl (AssertionError ''Multiple controllers changing z depth is not supported'')"
      by simp
    moreover have "get_pv_metadata rt fs pvtiffile \<noteq> Inr r"
    proof
      assume "get_pv_metadata rt fs pvtiffile = Inr r"
      from ret [OF this] err show False by simp
    qed
    ultimately show ?thesis by simp
  qed
  from c0 c1 c2 c3 c4 show ?thesis by blast
qed

lemma exact_runtime_sym: "\<forall>a b. f_eq exact_runtime a b \<longrightarrow> f_eq exact_runtime b a"
  by (simp add: exact_runtime_def)

lemma exact_runtime_trans:
  "\<forall>a b c. f_eq exact_runtime a b \<longrightarrow> f_eq exact_runtime b c \<longrightarrow> f_eq exact_runtime a c"
  by (simp add: exact_runtime_def)

theorem several_controllers_disambiguated_witness:
  "scan_document (scan_dir [one_moves_doc]) tif = Inr one_moves_doc
   \<and> find_elem one_moves_doc path_frame_zaxis \<noteq> None
   \<and> length (findall one_moves_doc path_z_controllers) = 2
   \<and> map (\<lambda>controller. py_format (attrib_get controller ''subindex''))
        (findall one_moves_doc path_controllers) = [''0'', ''1'']
   \<and> comprehension (\<lambda>plane. py_int exact_runtime (attrib_get plane ''index''))
        (findall one_moves_doc path_cycle1_frame) = Inr [1, 2, 3]
   \<and> comprehension (controller_values exact_runtime one_moves_doc)
        (findall one_moves_doc path_controllers) = Inr [[100, 100, 100], [1, 2, 3]]
   \<and> filter (varies exact_runtime) [[100, 100, 100], [1, 2, 3]] = [[1, 2, 3]]
   \<and> get_pv_metadata exact_runtime (scan_dir [one_moves_doc]) tif
       = Inr (expected 1 3 3 False (1 / 25) (Floats [1, 2, 3]))
   \<and> fieldZ (expected 1 3 3 False (1 / 25) (Floats [1, 2, 3])) = Floats [1, 2, 3]
   \<and> scan_document (scan_dir [both_move_doc]) tif = Inr both_move_doc
   \<and> find_elem both_move_doc path_frame_zaxis \<noteq> None
   \<and> length (findall both_move_doc path_z_controllers) = 2
   \<and> map (\<lambda>controller. py_format (attrib_get controller ''subindex''))
        (findall both_move_doc path_controllers) = [''0'', ''1'']
   \<and> comprehension (controller_values exact_runtime both_move_doc)
        (findall both_move_doc path_controllers) = Inr [[100, 101, 100], [1, 2, 3]]
   \<and> length (filter (varies exact_runtime) [[100, 101, 100], [1, 2, 3]]) = 2
   \<and> resolve_z exact_runtime both_move_doc
       = Inl (AssertionError ''Multiple controllers changing z depth is not supported'')
   \<and> get_pv_metadata exact_runtime (scan_dir [both_move_doc]) tif
       = Inl (AssertionError ''Multiple controllers changing z depth is not supported'')
   \<and> scan_document (scan_dir [both_rest_doc]) tif = Inr both_rest_doc
   \<and> find_elem both_rest_doc path_frame_zaxis \<noteq> None
   \<and> length (findall both_rest_doc path_z_controllers) = 2
   \<and> map (\<lambda>controller. py_format (attrib_get controller ''subindex''))
        (findall both_rest_doc path_controllers) = [''0'', ''1'']
   \<and> comprehension (controller_values exact_runtime both_rest_doc)
        (findall both_rest_doc path_controllers) = Inr [[100, 100, 100], [1, 1, 1]]
   \<and> length (filter (varies exact_runtime) [[100, 100, 100], [1, 1, 1]]) = 0
   \<and> resolve_z exact_runtime both_rest_doc
       = Inl (AssertionError ''Multiple controllers changing z depth is not supported'')
   \<and> get_pv_metadata exact_runtime (scan_dir [both_rest_doc]) tif
       = Inl (AssertionError ''Multiple controllers changing z depth is not supported'')"
proof -
  let ?r = "expected 1 3 3 False (1 / 25) (Floats [1, 2, 3])"
  have two: "1 < (2 :: nat)" by simp
  have a: "fieldZ ?r = Floats [1, 2, 3]"
    using several_controllers_disambiguated
            [OF one_moves_document one_moves_multi_plane
                two [folded one_moves_z_controllers] one_moves_planes one_moves_collected
                plain_subindex [OF one_moves_subindex]
                exact_runtime_sym exact_runtime_trans, where zs = "[1, 2, 3]" and r = ?r]
      one_moves_varies one_moves_call
    by blast
  have b: "resolve_z exact_runtime both_move_doc
       = Inl (AssertionError ''Multiple controllers changing z depth is not supported'')"
    using several_controllers_disambiguated
            [OF both_move_document both_move_multi_plane
                two [folded both_move_z_controllers] both_move_planes both_move_collected
                plain_subindex [OF both_move_subindex]
                exact_runtime_sym exact_runtime_trans]
      both_move_varies
    by simp
  have c: "resolve_z exact_runtime both_rest_doc
       = Inl (AssertionError ''Multiple controllers changing z depth is not supported'')"
    using several_controllers_disambiguated
            [OF both_rest_document both_rest_multi_plane
                two [folded both_rest_z_controllers] both_rest_planes both_rest_collected
                plain_subindex [OF both_rest_subindex]
                exact_runtime_sym exact_runtime_trans]
      both_rest_varies
    by simp
  from a b c one_moves_document one_moves_multi_plane one_moves_z_controllers one_moves_planes
    one_moves_subindex both_move_subindex both_rest_subindex
    one_moves_collected one_moves_varies one_moves_call
    both_move_document both_move_multi_plane both_move_z_controllers both_move_collected
    both_move_varies both_move_call
    both_rest_document both_rest_multi_plane both_rest_z_controllers both_rest_collected
    both_rest_varies both_rest_call
  show ?thesis by simp
qed

subsection \<open>The type of \<^verbatim>\<open>fieldZ\<close>\<close>

lemma py_getitem_nat_Inr:
  assumes "py_getitem xs (int i) = Inr x"
  shows "i < length xs \<and> x = xs ! i"
  using assms by (auto simp: py_getitem_def split: if_splits)

lemma several_controllers_Inr:
  assumes "several_controllers rt xml_root = Inr z_fields"
  shows "\<exists>controller\<in>set (findall xml_root path_controllers). \<exists>vs.
           controller_values rt xml_root controller = Inr vs \<and> z_fields = Floats vs"
proof -
  from assms obtain z_repeats i vs
    where collected: "comprehension (controller_values rt xml_root)
                        (findall xml_root path_controllers) = Inr z_repeats"
      and item: "py_getitem z_repeats (int i) = Inr vs"
      and z: "z_fields = Floats vs"
    by (auto simp: several_controllers_def and_then_Inr_iff)
  from py_getitem_nat_Inr [OF item] have i: "i < length z_repeats" and vs: "vs = z_repeats ! i"
    by simp_all
  from collected have all: "list_all2 (\<lambda>c zs. controller_values rt xml_root c = Inr zs)
                         (findall xml_root path_controllers) z_repeats"
    by (simp only: comprehension_Inr_iff)
  then have len: "length (findall xml_root path_controllers) = length z_repeats"
    by (rule list_all2_lengthD)
  from all i have "controller_values rt xml_root (findall xml_root path_controllers ! i)
                     = Inr (z_repeats ! i)"
    by (rule list_all2_nthD2)
  moreover from i len have "findall xml_root path_controllers ! i
                              \<in> set (findall xml_root path_controllers)"
    by simp
  ultimately show ?thesis using z vs by blast
qed

text \<open>
  Claim C9. What \<^verbatim>\<open>fieldZ\<close> of a returned dictionary is depends on the branch taken:
  without a Z-axis node in a frame of cycle 1 it is one numpy scalar, not a list;
  with one and a single controller entry it is the list of the \<^verbatim>\<open>value\<close>
  attributes as \<^verbatim>\<open>attrib.get\<close> returns them, unconverted; with more than one
  controller entry it is the list of floats collected for one of the controllers.
\<close>

theorem z_fields_type_by_branch:
  assumes ret: "get_pv_metadata rt fs pvtiffile = Inr r"
    and doc: "scan_document fs pvtiffile = Inr xml_root"
  shows "(find_elem xml_root path_frame_zaxis = None \<longrightarrow> (\<exists>v. fieldZ r = Scalar v))
       \<and> (find_elem xml_root path_frame_zaxis \<noteq> None
            \<and> length (findall xml_root path_z_controllers) = 1 \<longrightarrow>
          fieldZ r = Texts (map (\<lambda>z. attrib_get z ''value'')
                              (findall xml_root (path_subindex ''0''))))
       \<and> (find_elem xml_root path_frame_zaxis \<noteq> None
            \<and> 1 < length (findall xml_root path_z_controllers) \<longrightarrow>
          (\<exists>controller\<in>set (findall xml_root path_controllers). \<exists>vs.
              controller_values rt xml_root controller = Inr vs \<and> fieldZ r = Floats vs))"
proof -
  from ret doc have "extract_metainfo rt xml_root = Inr r"
    by (simp add: get_pv_metadata_def)
  then have z: "resolve_z rt xml_root = Inr (num_planes r, fieldZ r, bidirectional_z r)"
    by (rule extract_metainfo_resolve_z)
  show ?thesis
  proof (intro conjI impI)
    assume "find_elem xml_root path_frame_zaxis = None"
    from resolve_z_single_plane [OF this z] show "\<exists>v. fieldZ r = Scalar v"
      by blast
  next
    assume a: "find_elem xml_root path_frame_zaxis \<noteq> None
                 \<and> length (findall xml_root path_z_controllers) = 1"
    from resolve_z_multi_plane_Inr [OF conjunct1 [OF a] z] a
    show "fieldZ r = Texts (map (\<lambda>z. attrib_get z ''value'')
                              (findall xml_root (path_subindex ''0'')))"
      by (auto simp: one_controller_def)
  next
    assume a: "find_elem xml_root path_frame_zaxis \<noteq> None
                 \<and> 1 < length (findall xml_root path_z_controllers)"
    from resolve_z_multi_plane_Inr [OF conjunct1 [OF a] z] a
    have "several_controllers rt xml_root = Inr (fieldZ r)"
      by auto
    then show "\<exists>controller\<in>set (findall xml_root path_controllers). \<exists>vs.
              controller_values rt xml_root controller = Inr vs \<and> fieldZ r = Floats vs"
      by (rule several_controllers_Inr)
  qed
qed

lemma three_plane_texts:
  "map (\<lambda>z. attrib_get z ''value'') (findall three_plane_doc (path_subindex ''0''))
     = [Some ''10'', Some ''20'', Some ''30'']"
  by code_simp

theorem z_fields_type_by_branch_witness:
  "get_pv_metadata exact_runtime (scan_dir [settings_doc, single_plane_doc]) tif
     = Inr (expected 2 1 6 False (1 / 10) (Scalar (127 / 2)))
   \<and> scan_document (scan_dir [settings_doc, single_plane_doc]) tif = Inr single_plane_doc
   \<and> find_elem single_plane_doc path_frame_zaxis = None
   \<and> fieldZ (expected 2 1 6 False (1 / 10) (Scalar (127 / 2))) = Scalar (127 / 2)
   \<and> get_pv_metadata exact_runtime (scan_dir [three_plane_doc]) tif
       = Inr (expected 1 3 3 True (1 / 25) (Texts [Some ''10'', Some ''20'', Some ''30'']))
   \<and> scan_document (scan_dir [three_plane_doc]) tif = Inr three_plane_doc
   \<and> find_elem three_plane_doc path_frame_zaxis \<noteq> None
   \<and> length (findall three_plane_doc path_z_controllers) = 1
   \<and> map (\<lambda>z. attrib_get z ''value'') (findall three_plane_doc (path_subindex ''0''))
       = [Some ''10'', Some ''20'', Some ''30'']
   \<and> fieldZ (expected 1 3 3 True (1 / 25) (Texts [Some ''10'', Some ''20'', Some ''30'']))
       = Texts [Some ''10'', Some ''20'', Some ''30'']
   \<and> get_pv_metadata exact_runtime (scan_dir [one_moves_doc]) tif
       = Inr (expected 1 3 3 False (1 / 25) (Floats [1, 2, 3]))
   \<and> scan_document (scan_dir [one_moves_doc]) tif = Inr one_moves_doc
   \<and> find_elem one_moves_doc path_frame_zaxis \<noteq> None
   \<and> length (findall one_moves_doc path_z_controllers) = 2
   \<and> fieldZ (expected 1 3 3 False (1 / 25) (Floats [1, 2, 3])) = Floats [1, 2, 3]"
proof -
  have a: "\<exists>v. fieldZ (expected 2 1 6 False (1 / 10) (Scalar (127 / 2))) = Scalar v"
    using z_fields_type_by_branch [OF single_plane_call single_plane_document]
      single_plane_no_frame_zaxis
    by blast
  have b: "fieldZ (expected 1 3 3 True (1 / 25) (Texts [Some ''10'', Some ''20'', Some ''30'']))
       = Texts [Some ''10'', Some ''20'', Some ''30'']"
    using z_fields_type_by_branch [OF three_plane_call three_plane_document]
      three_plane_multi_plane three_plane_z_controllers three_plane_texts
    by simp
  have c: "\<exists>vs. fieldZ (expected 1 3 3 False (1 / 25) (Floats [1, 2, 3])) = Floats vs"
    using z_fields_type_by_branch [OF one_moves_call one_moves_document]
      one_moves_multi_plane one_moves_z_controllers
    by auto
  from a b c single_plane_call single_plane_document single_plane_no_frame_zaxis
    three_plane_call three_plane_document three_plane_multi_plane three_plane_z_controllers
    three_plane_texts one_moves_call one_moves_document one_moves_multi_plane
    one_moves_z_controllers
  show ?thesis by (simp add: expected_def)
qed

subsection \<open>The variation test on an empty list\<close>

lemma unmatched_controllers:
  "findall unmatched_controller_doc path_controllers
     = [subindexed ''0'' ''100'', subindexed ''1'' ''1'',
        Element ''SubindexedValue'' [(''value'', ''7'')] []]"
  by code_simp

lemma unmatched_entries:
  "findall unmatched_controller_doc
     (path_subindex (py_format (attrib_get (Element ''SubindexedValue'' [(''value'', ''7'')] [])
                                  ''subindex''))) = []"
  by code_simp

lemma unmatched_values:
  "controller_values exact_runtime unmatched_controller_doc
     (Element ''SubindexedValue'' [(''value'', ''7'')] []) = Inr []"
  by code_simp

lemma unmatched_call:
  "get_pv_metadata exact_runtime (scan_dir [unmatched_controller_doc]) tif
     = Inr (expected 1 3 3 False (1 / 25) (Floats [1, 2, 3]))"
  by code_simp

text \<open>
  Against claim C10 as stated: the third controller child of the first frame has no
  matching entry in any frame, its list is empty, and the call returns a dictionary.
\<close>

theorem empty_list_raises_no_index_error:
  "findall unmatched_controller_doc path_controllers
     = [subindexed ''0'' ''100'', subindexed ''1'' ''1'',
        Element ''SubindexedValue'' [(''value'', ''7'')] []]
   \<and> findall unmatched_controller_doc
        (path_subindex (py_format (attrib_get (Element ''SubindexedValue'' [(''value'', ''7'')] [])
                                     ''subindex''))) = []
   \<and> controller_values exact_runtime unmatched_controller_doc
        (Element ''SubindexedValue'' [(''value'', ''7'')] []) = Inr []
   \<and> get_pv_metadata exact_runtime (scan_dir [unmatched_controller_doc]) tif
       = Inr (expected 1 3 3 False (1 / 25) (Floats [1, 2, 3]))
   \<and> get_pv_metadata exact_runtime (scan_dir [unmatched_controller_doc]) tif \<noteq> Inl IndexError"
  using unmatched_controllers unmatched_entries unmatched_values unmatched_call
  by simp

lemma findall_subindex_no_index_error: "findall_subindex rt xml_root s \<noteq> Inl IndexError"
proof (cases "apostrophe \<in> set s")
  case True
  show ?thesis
  proof (cases "findall_text rt (text_subindex s) xml_root")
    case (Inl x)
    with True show ?thesis
      by (cases x) (simp_all add: findall_subindex_def)
  next
    case (Inr matches)
    with True show ?thesis
      by (simp add: findall_subindex_def)
  qed
next
  case False
  then show ?thesis
    by (simp add: findall_subindex_def)
qed

lemma controller_values_no_index_error:
  "controller_values rt xml_root controller \<noteq> Inl IndexError"
proof
  assume "controller_values rt xml_root controller = Inl IndexError"
  then have "\<exists>matches. comprehension (\<lambda>z. py_float rt (attrib_get z ''value'')) matches
                         = Inl IndexError"
    using findall_subindex_no_index_error [of rt xml_root]
    by (auto simp: controller_values_def and_then_Inl_iff)
  then obtain z where "py_float rt (attrib_get z ''value'') = Inl IndexError"
    using comprehension_Inl by blast
  then show False
    by (simp add: py_float_def split: option.splits)
qed

lemma several_controllers_no_index_error: "several_controllers rt xml_root \<noteq> Inl IndexError"
proof
  assume err: "several_controllers rt xml_root = Inl IndexError"
  show False
  proof (cases "comprehension (controller_values rt xml_root) (findall xml_root path_controllers)")
    case (Inl e)
    with err have "e = IndexError"
      by (simp add: several_controllers_def)
    with Inl comprehension_Inl obtain c where "controller_values rt xml_root c = Inl IndexError"
      by blast
    then show False
      by (simp add: controller_values_no_index_error)
  next
    case (Inr z_repeats)
    from several_controllers_result [OF Inr] err show False
      by (simp split: if_splits)
  qed
qed

text \<open>
  Claim C10, amended. Line 147 reads the first item of a list once for every item of
  that list, so never for an empty list: an empty list counts as not varying, the
  test returns a truth value for every list, and neither the branch for several
  controllers nor the resolver as a whole raises \<^verbatim>\<open>IndexError\<close>.
\<close>

theorem variation_test_is_total:
  "controller_varies rt [] = Inr False
   \<and> (\<exists>b. controller_varies rt zs = Inr b)
   \<and> several_controllers rt xml_root \<noteq> Inl IndexError
   \<and> resolve_z rt xml_root \<noteq> Inl IndexError"
proof -
  have "resolve_z rt xml_root \<noteq> Inl IndexError"
  proof
    assume err: "resolve_z rt xml_root = Inl IndexError"
    show False
    proof (cases "find_elem xml_root path_frame_zaxis = None")
      case True
      with err show False
        by (auto simp: resolve_z_def Let_def and_then_Inl_iff py_attrib_def py_np_float64_def
              py_assert_def split: option.splits)
    next
      case False
      show False
      proof (cases "comprehension (\<lambda>plane. py_int rt (attrib_get plane ''index''))
                      (findall xml_root path_cycle1_frame)")
        case (Inl e)
        from multi_plane_has_sequence [OF False] obtain s
          where "find_elem xml_root path_sequence = Some s" by blast
        with err False Inl have "e = IndexError"
          by (simp add: resolve_z_def Let_def py_attrib_def)
        with Inl comprehension_Inl obtain p
          where "py_int rt (attrib_get p ''index'') = Inl IndexError"
          by blast
        then show False
          by (simp add: py_int_def split: option.splits)
      next
        case (Inr planes)
        from resolve_z_multi_plane [OF False Inr] obtain bidirection_z
          where "resolve_z rt xml_root =
             and_then (if length (findall xml_root path_z_controllers) > 1
                       then several_controllers rt xml_root else Inr (one_controller xml_root))
               (\<lambda>z_fields.
             and_then (py_assert (z_len z_fields = card (set planes))
                         ''Number of z fields does not match number of depths.'')
               (\<lambda>_. Inr (card (set planes), z_fields, bidirection_z)))"
          by blast
        then have "and_then (if length (findall xml_root path_z_controllers) > 1
                       then several_controllers rt xml_root else Inr (one_controller xml_root))
               (\<lambda>z_fields.
             and_then (py_assert (z_len z_fields = card (set planes))
                         ''Number of z fields does not match number of depths.'')
               (\<lambda>_. Inr (card (set planes), z_fields, bidirection_z))) = Inl IndexError"
          using err by simp
        then show False
          using several_controllers_no_index_error [of rt xml_root]
          by (auto simp: and_then_Inl_iff py_assert_def split: if_splits)
      qed
    qed
  qed
  then show ?thesis
    using several_controllers_no_index_error [of rt xml_root]
    by (simp add: controller_varies_eq)
qed

subsection \<open>Scalar lookups\<close>

lemma first_value_cases:
  "first_value xml_root path =
     (case findall xml_root path of [] \<Rightarrow> Inl IndexError | e # _ \<Rightarrow> Inr (attrib_get e ''value''))"
  by (simp add: first_value_def py_getitem_def split: list.splits)

lemma find_value_cases:
  "find_value xml_root path =
     (case findall xml_root path of [] \<Rightarrow> Inl AttributeError | e # _ \<Rightarrow> Inr (attrib_get e ''value''))"
  by (simp add: find_value_def find_elem_def py_attrib_def split: list.splits)

lemma two_frame_period_matches:
  "findall two_frame_period_doc (path_state ''framePeriod'')
     = [state_value ''framePeriod'' ''0.02'', state_value ''framePeriod'' ''0.04'']"
  by code_simp

lemma two_frame_period_document:
  "scan_document (scan_dir [two_frame_period_doc]) tif = Inr two_frame_period_doc"
  by code_simp

lemma two_frame_period_call:
  "get_pv_metadata exact_runtime (scan_dir [two_frame_period_doc]) tif
     = Inr (expected 1 1 2 False (1 / 50) (Scalar (127 / 2)))"
  by code_simp

lemma no_frame_period_matches: "findall no_frame_period_doc (path_state ''framePeriod'') = []"
  by code_simp

lemma no_frame_period_document:
  "scan_document (scan_dir [no_frame_period_doc]) tif = Inr no_frame_period_doc"
  by code_simp

lemma no_frame_period_call:
  "get_pv_metadata exact_runtime (scan_dir [no_frame_period_doc]) tif = Inl IndexError"
  by code_simp

lemma float_of_first_frame_period:
  "py_float exact_runtime (attrib_get (state_value ''framePeriod'' ''0.02'') ''value'')
     = Inr (2 / 100)"
  by code_simp

text \<open>
  Against claim C4 as stated: the document has two \<^verbatim>\<open>framePeriod\<close> entries and the
  call returns a dictionary, with the frame rate of the first.
\<close>

theorem several_matches_are_not_rejected:
  "findall two_frame_period_doc (path_state ''framePeriod'')
     = [state_value ''framePeriod'' ''0.02'', state_value ''framePeriod'' ''0.04'']
   \<and> get_pv_metadata exact_runtime (scan_dir [two_frame_period_doc]) tif
       = Inr (expected 1 1 2 False (1 / 50) (Scalar (127 / 2)))"
  using two_frame_period_matches two_frame_period_call
  by simp

text \<open>
  Claim C4, amended. When the document has no node for one of the scalar lookups
  (\<^verbatim>\<open>framePeriod\<close>, \<^verbatim>\<open>scanLinePeriod\<close>, \<^verbatim>\<open>pixelsPerLine\<close>, the X-axis entry of
  \<^verbatim>\<open>micronsPerPixel\<close>, the X-axis and Y-axis entries of \<^verbatim>\<open>currentScanCenter\<close>), the
  lookup raises (\<^verbatim>\<open>IndexError\<close> where the source indexes \<^verbatim>\<open>findall\<close>,
  \<^verbatim>\<open>AttributeError\<close> where it uses \<^verbatim>\<open>find\<close>) and no dictionary is returned. When it
  has one node or more, a returned dictionary holds the value of the first one in
  document order.
\<close>

theorem lookups_read_first_match:
  assumes doc: "scan_document fs pvtiffile = Inr xml_root"
  shows "((findall xml_root (path_state ''framePeriod'') = []
           \<or> findall xml_root (path_state ''scanLinePeriod'') = []
           \<or> findall xml_root (path_state ''pixelsPerLine'') = []
           \<or> findall xml_root (path_indexed ''micronsPerPixel'' ''XAxis'') = []
           \<or> findall xml_root (path_indexed ''currentScanCenter'' ''XAxis'') = []
           \<or> findall xml_root (path_indexed ''currentScanCenter'' ''YAxis'') = []) \<longrightarrow>
          get_pv_metadata rt fs pvtiffile \<noteq> Inr r)
       \<and> (findall xml_root path = [] \<longrightarrow>
            first_value xml_root path = Inl IndexError
          \<and> find_value xml_root path = Inl AttributeError)
       \<and> (get_pv_metadata rt fs pvtiffile = Inr r \<longrightarrow>
            (\<exists>e es v. findall xml_root (path_state ''framePeriod'') = e # es
                \<and> py_float rt (attrib_get e ''value'') = Inr v
                \<and> frame_rate r = f_div rt (f_one rt) v)
          \<and> (\<exists>e es v. findall xml_root (path_state ''scanLinePeriod'') = e # es
                \<and> py_float rt (attrib_get e ''value'') = Inr v
                \<and> usecs_per_line r = f_mul rt v (f_1e6 rt))
          \<and> (\<exists>e es. findall xml_root (path_state ''pixelsPerLine'') = e # es
                \<and> py_int rt (attrib_get e ''value'') = Inr (height_in_pixels r))
          \<and> (\<exists>e es v w. findall xml_root (path_indexed ''micronsPerPixel'' ''XAxis'') = e # es
                \<and> py_float rt (attrib_get e ''value'') = Inr v
                \<and> py_float_int rt (height_in_pixels r) = Inr w
                \<and> height_in_um r = f_mul rt w v)
          \<and> (\<exists>e es. findall xml_root (path_indexed ''currentScanCenter'' ''XAxis'') = e # es
                \<and> py_float rt (attrib_get e ''value'') = Inr (fieldX r))
          \<and> (\<exists>e es. findall xml_root (path_indexed ''currentScanCenter'' ''YAxis'') = e # es
                \<and> py_float rt (attrib_get e ''value'') = Inr (fieldY r)))"
proof -
  have reads: "(\<exists>e es v. findall xml_root (path_state ''framePeriod'') = e # es
                \<and> py_float rt (attrib_get e ''value'') = Inr v
                \<and> frame_rate r = f_div rt (f_one rt) v)
          \<and> (\<exists>e es v. findall xml_root (path_state ''scanLinePeriod'') = e # es
                \<and> py_float rt (attrib_get e ''value'') = Inr v
                \<and> usecs_per_line r = f_mul rt v (f_1e6 rt))
          \<and> (\<exists>e es. findall xml_root (path_state ''pixelsPerLine'') = e # es
                \<and> py_int rt (attrib_get e ''value'') = Inr (height_in_pixels r))
          \<and> (\<exists>e es v w. findall xml_root (path_indexed ''micronsPerPixel'' ''XAxis'') = e # es
                \<and> py_float rt (attrib_get e ''value'') = Inr v
                \<and> py_float_int rt (height_in_pixels r) = Inr w
                \<and> height_in_um r = f_mul rt w v)
          \<and> (\<exists>e es. findall xml_root (path_indexed ''currentScanCenter'' ''XAxis'') = e # es
                \<and> py_float rt (attrib_get e ''value'') = Inr (fieldX r))
          \<and> (\<exists>e es. findall xml_root (path_indexed ''currentScanCenter'' ''YAxis'') = e # es
                \<and> py_float rt (attrib_get e ''value'') = Inr (fieldY r))"
    if ret: "get_pv_metadata rt fs pvtiffile = Inr r"
  proof -
    from ret doc have "extract_metainfo rt xml_root = Inr r"
      by (simp add: get_pv_metadata_def)
    then show ?thesis
      by (rule extract_metainfo_Inr)
         (auto simp: first_value_cases find_value_cases py_truediv_Inr_iff split: list.splits)
  qed
  have none: "first_value xml_root path = Inl IndexError
          \<and> find_value xml_root path = Inl AttributeError"
    if "findall xml_root path = []"
    using that by (simp add: first_value_cases find_value_cases)
  have fails: "get_pv_metadata rt fs pvtiffile \<noteq> Inr r"
    if "findall xml_root (path_state ''framePeriod'') = []
           \<or> findall xml_root (path_state ''scanLinePeriod'') = []
           \<or> findall xml_root (path_state ''pixelsPerLine'') = []
           \<or> findall xml_root (path_indexed ''micronsPerPixel'' ''XAxis'') = []
           \<or> findall xml_root (path_indexed ''currentScanCenter'' ''XAxis'') = []
           \<or> findall xml_root (path_indexed ''currentScanCenter'' ''YAxis'') = []"
  proof
    assume "get_pv_metadata rt fs pvtiffile = Inr r"
    from reads [OF this] that show False by auto
  qed
  from reads none fails show ?thesis by blast
qed

theorem lookups_read_first_match_witness:
  "scan_document (scan_dir [no_frame_period_doc]) tif = Inr no_frame_period_doc
   \<and> findall no_frame_period_doc (path_state ''framePeriod'') = []
   \<and> first_value no_frame_period_doc (path_state ''framePeriod'') = Inl IndexError
   \<and> get_pv_metadata exact_runtime (scan_dir [no_frame_period_doc]) tif = Inl IndexError
   \<and> scan_document (scan_dir [two_frame_period_doc]) tif = Inr two_frame_period_doc
   \<and> findall two_frame_period_doc (path_state ''framePeriod'')
       = [state_value ''framePeriod'' ''0.02'', state_value ''framePeriod'' ''0.04'']
   \<and> get_pv_metadata exact_runtime (scan_dir [two_frame_period_doc]) tif
       = Inr (expected 1 1 2 False (1 / 50) (Scalar (127 / 2)))
   \<and> py_float exact_runtime (attrib_get (state_value ''framePeriod'' ''0.02'') ''value'')
       = Inr (2 / 100)
   \<and> frame_rate (expected 1 1 2 False (1 / 50) (Scalar (127 / 2)))
       = f_div exact_runtime (f_one exact_runtime) (2 / 100)"
proof -
  have a: "first_value no_frame_period_doc (path_state ''framePeriod'') = Inl IndexError"
    using lookups_read_first_match
            [OF no_frame_period_document, where path = "path_state ''framePeriod''"]
      no_frame_period_matches
    by blast
  have "\<exists>e es v. findall two_frame_period_doc (path_state ''framePeriod'') = e # es
                \<and> py_float exact_runtime (attrib_get e ''value'') = Inr v
                \<and> frame_rate (expected 1 1 2 False (1 / 50) (Scalar (127 / 2)))
                    = f_div exact_runtime (f_one exact_runtime) v"
    using lookups_read_first_match [OF two_frame_period_document] two_frame_period_call
    by blast
  then obtain e es v
    where m: "findall two_frame_period_doc (path_state ''framePeriod'') = e # es"
      and f: "py_float exact_runtime (attrib_get e ''value'') = Inr v"
      and fr: "frame_rate (expected 1 1 2 False (1 / 50) (Scalar (127 / 2)))
                 = f_div exact_runtime (f_one exact_runtime) v"
    by blast
  from m have "e = state_value ''framePeriod'' ''0.02''"
    by (simp add: two_frame_period_matches)
  with f float_of_first_frame_period have "v = 2 / 100"
    by simp
  with fr have b: "frame_rate (expected 1 1 2 False (1 / 50) (Scalar (127 / 2)))
       = f_div exact_runtime (f_one exact_runtime) (2 / 100)"
    by simp
  from a b no_frame_period_document no_frame_period_matches no_frame_period_call
    two_frame_period_document two_frame_period_matches two_frame_period_call
    float_of_first_frame_period
  show ?thesis by simp
qed

end
